theory Spec2Isabelle
  imports Main
begin

section \<open>PrivateVolume.cpp: the lifecycle of one private encrypted volume\<close>

text \<open>
  The file drives a set of collaborators that live outside it (device-node helpers, the
  device mapper, encryption setup, the ext4 and f2fs drivers, directory preparation, the
  listener). The embedding keeps the control flow of every method as it is written and
  makes the collaborators explicit:
  \<^item> each collaborator answers from a script held by the \<open>world\<close>: the answer to its next
    call is the script at index 0, and a call consumes it. Any deterministic environment
    is such a script, and a scenario like "busy nine times, then success" is one too;
  \<^item> every call is appended to the world's \<open>trace\<close> with its arguments and its answer, so
    that "was attempted", "before" and "no further call" are statements about the trace;
  \<^item> the members of the C++ object are the fields of the record \<open>volume\<close>; a method takes
    the volume and the world and returns its status with both updated.
  Logging (\<open>LOG\<close>, \<open>PLOG\<close>) has no effect on control flow and is left out.
\<close>

subsection \<open>Constants of the platform headers\<close>

type_synonym status_t = int

definition OK :: status_t where
  "OK = 0"

definition EIO :: int where
  "EIO = 5"

definition EBUSY :: int where
  "EBUSY = 16"

definition EINVAL :: int where
  "EINVAL = 22"

definition ENOENT :: int where
  "ENOENT = 2"

text \<open>The owners used by the directory layout (\<open>android_filesystem_config.h\<close>), kept symbolic.\<close>

datatype aid = AID_ROOT | AID_SYSTEM | AID_MEDIA_RW | AID_SHELL

text \<open>A permission mode written in octal in the source: \<open>0771\<close> is \<open>mode 7 7 1\<close>.\<close>

definition mode :: "nat \<Rightarrow> nat \<Rightarrow> nat \<Rightarrow> nat" where
  "mode usr grp oth = usr * 64 + grp * 8 + oth"

text \<open>The inode flag of \<open>linux/fs.h\<close> that \<open>doMount\<close> passes for the media directory.\<close>

definition FS_CASEFOLD_FL :: nat where
  "FS_CASEFOLD_FL = 0x40000000"

definition RETRY_MOUNT_ATTEMPTS :: nat where
  "RETRY_MOUNT_ATTEMPTS = 10"

definition RETRY_MOUNT_DELAY_SECONDS :: nat where
  "RETRY_MOUNT_DELAY_SECONDS = 1"

definition kMajorBlockLoop :: nat where
  "kMajorBlockLoop = 7"

definition kMajorBlockMmc :: nat where
  "kMajorBlockMmc = 179"

subsection \<open>Data\<close>

text \<open>
  Modelled from the spec: a raw device identifier is its pair of major and minor numbers.
  The source reads a \<open>dev_t\<close> only through \<open>major\<close> and \<open>minor\<close>, macros of \<open>sys/sysmacros.h\<close>
  that yield an \<open>unsigned int\<close> each and are not part of the file.
\<close>

record dev_t =
  major :: nat
  minor :: nat

text \<open>
  Modelled from the spec: \<open>getId\<close> and \<open>getListener\<close> stand for the state of the base class
  \<open>VolumeBase\<close>, which is not part of the file: the identity and the optional registered
  listener (\<open>True\<close> when there is one). The other fields are the members of \<open>PrivateVolume\<close>.
\<close>

record volume =
  getId :: string
  getListener :: bool
  mRawDevice :: dev_t
  mKeyRaw :: string
  mRawDevPath :: string
  mDmDevPath :: string
  mFsType :: string
  mFsUuid :: string
  mFsLabel :: string
  mPath :: string

text \<open>A call of a collaborator, with its arguments and, last, what it answered.\<close>

datatype event =
    EvCreateDeviceNode string dev_t status_t
  | EvDeleteDeviceIfExists string bool int
  | EvDeleteDevice string bool int
  | EvSleepMillis nat
  | EvSleepSeconds nat
  | EvSetupExtVolume string string string bool string
  | EvOpen string int
  | EvClose int
  | EvDestroyDeviceNode string status_t
  | EvReadMetadata string status_t string string string
  | EvVolumeMetadataChanged string string string string
  | EvSetPath string
  | EvPrepareDir string nat aid aid nat status_t
  | EvExt4Check string string int
  | EvExt4Mount string string bool bool bool status_t
  | EvF2fsCheck string int
  | EvF2fsMount string string status_t
  | EvRestoreconRecursive string
  | EvForceUnmount string
  | EvRmdir string int
  | EvExt4Format string nat string status_t
  | EvF2fsFormat string bool "string list" status_t
  | EvAddEmulatedVolume string dev_t string nat

text \<open>
  The world: one script of answers per collaborator, the facts of the running system that
  the methods only read, and the trace. An answer of the device mapper is the returned flag together
  with the value of \<open>errno\<close> after the call; an answer of \<open>setup_ext_volume\<close> is the flag and
  the contents of its output path; an answer of \<open>ReadMetadata\<close> is the status and the three
  strings its output parameters hold afterwards.
\<close>

record world =
  ans_CreateDeviceNode :: "nat \<Rightarrow> status_t"
  ans_DeleteDeviceIfExists :: "nat \<Rightarrow> bool \<times> int"
  ans_DeleteDevice :: "nat \<Rightarrow> bool \<times> int"
  ans_setup_ext_volume :: "nat \<Rightarrow> bool \<times> string"
  ans_open :: "nat \<Rightarrow> int"
  ans_DestroyDeviceNode :: "nat \<Rightarrow> status_t"
  ans_ReadMetadata :: "nat \<Rightarrow> status_t \<times> string \<times> string \<times> string"
  ans_PrepareDir :: "nat \<Rightarrow> status_t"
  ans_ext4_Check :: "nat \<Rightarrow> int"
  ans_ext4_Mount :: "nat \<Rightarrow> status_t"
  ans_f2fs_Check :: "nat \<Rightarrow> int"
  ans_f2fs_Mount :: "nat \<Rightarrow> status_t"
  ans_rmdir :: "nat \<Rightarrow> int"
  ans_ext4_Format :: "nat \<Rightarrow> status_t"
  ans_f2fs_Format :: "nat \<Rightarrow> status_t"
  IsVirtioBlkDevice :: "nat \<Rightarrow> bool"
  f2fs_IsSupported :: bool
  IsSdcardfsUsed :: bool
  getStartedUsers :: "nat list"
  trace :: "event list"

definition next_ans :: "(nat \<Rightarrow> 'a) \<Rightarrow> nat \<Rightarrow> 'a" where
  "next_ans f = (\<lambda>n. f (Suc n))"

definition log :: "event \<Rightarrow> world \<Rightarrow> world" where
  "log e w = w\<lparr>trace := trace w @ [e]\<rparr>"

text \<open>The events a run has added: what the trace holds beyond its length at the start.\<close>

definition emitted :: "world \<Rightarrow> world \<Rightarrow> event list" where
  "emitted w w' = drop (length (trace w)) (trace w')"

text \<open>\<open>std::string::c_str\<close> read by a C function or by \<open>%s\<close>: the bytes up to the first NUL.\<close>

definition c_str :: "string \<Rightarrow> string" where
  "c_str s = takeWhile (\<lambda>c. c \<noteq> CHR 0x00) s"

text \<open>\<open>%u\<close> of \<open>StringPrintf\<close>: an unsigned number in decimal.\<close>

definition digit :: "nat \<Rightarrow> char" where
  "digit d = ''0123456789'' ! d"

fun decimal :: "nat \<Rightarrow> string" where
  "decimal n = (if n < 10 then [digit n] else decimal (n div 10) @ [digit (n mod 10)])"

subsection \<open>Collaborators\<close>

definition CreateDeviceNode :: "string \<Rightarrow> dev_t \<Rightarrow> world \<Rightarrow> status_t \<times> world" where
  "CreateDeviceNode path d w =
     (let r = ans_CreateDeviceNode w 0
      in (r, log (EvCreateDeviceNode path d r)
               (w\<lparr>ans_CreateDeviceNode := next_ans (ans_CreateDeviceNode w)\<rparr>)))"

definition DestroyDeviceNode :: "string \<Rightarrow> world \<Rightarrow> status_t \<times> world" where
  "DestroyDeviceNode path w =
     (let r = ans_DestroyDeviceNode w 0
      in (r, log (EvDestroyDeviceNode path r)
               (w\<lparr>ans_DestroyDeviceNode := next_ans (ans_DestroyDeviceNode w)\<rparr>)))"

text \<open>The two removals of the device mapper return the flag and leave \<open>errno\<close>.\<close>

definition DeleteDeviceIfExists :: "string \<Rightarrow> world \<Rightarrow> (bool \<times> int) \<times> world" where
  "DeleteDeviceIfExists name w =
     (let r = ans_DeleteDeviceIfExists w 0
      in (r, log (EvDeleteDeviceIfExists name (fst r) (snd r))
               (w\<lparr>ans_DeleteDeviceIfExists := next_ans (ans_DeleteDeviceIfExists w)\<rparr>)))"

definition DeleteDevice :: "string \<Rightarrow> world \<Rightarrow> (bool \<times> int) \<times> world" where
  "DeleteDevice name w =
     (let r = ans_DeleteDevice w 0
      in (r, log (EvDeleteDevice name (fst r) (snd r))
               (w\<lparr>ans_DeleteDevice := next_ans (ans_DeleteDevice w)\<rparr>)))"

definition sleep_for_milliseconds :: "nat \<Rightarrow> world \<Rightarrow> world" where
  "sleep_for_milliseconds n w = log (EvSleepMillis n) w"

definition sleep :: "nat \<Rightarrow> world \<Rightarrow> world" where
  "sleep n w = log (EvSleepSeconds n) w"

definition setup_ext_volume ::
  "string \<Rightarrow> string \<Rightarrow> string \<Rightarrow> world \<Rightarrow> (bool \<times> string) \<times> world" where
  "setup_ext_volume label blkdev key w =
     (let r = ans_setup_ext_volume w 0
      in (r, log (EvSetupExtVolume label blkdev key (fst r) (snd r))
               (w\<lparr>ans_setup_ext_volume := next_ans (ans_setup_ext_volume w)\<rparr>)))"

definition open_wronly :: "string \<Rightarrow> world \<Rightarrow> int \<times> world" where
  "open_wronly path w =
     (let r = ans_open w 0
      in (r, log (EvOpen path r) (w\<lparr>ans_open := next_ans (ans_open w)\<rparr>)))"

definition close :: "int \<Rightarrow> world \<Rightarrow> world" where
  "close fd w = log (EvClose fd) w"

definition ReadMetadata ::
  "string \<Rightarrow> world \<Rightarrow> (status_t \<times> string \<times> string \<times> string) \<times> world" where
  "ReadMetadata path w =
     (let r = ans_ReadMetadata w 0
      in (r, log (EvReadMetadata path (fst r) (fst (snd r)) (fst (snd (snd r)))
                    (snd (snd (snd r))))
               (w\<lparr>ans_ReadMetadata := next_ans (ans_ReadMetadata w)\<rparr>)))"

definition onVolumeMetadataChanged ::
  "string \<Rightarrow> string \<Rightarrow> string \<Rightarrow> string \<Rightarrow> world \<Rightarrow> world" where
  "onVolumeMetadataChanged ident fsType fsUuid fsLabel w =
     log (EvVolumeMetadataChanged ident fsType fsUuid fsLabel) w"

definition setPath :: "string \<Rightarrow> world \<Rightarrow> world" where
  "setPath path w = log (EvSetPath path) w"

definition PrepareDir ::
  "string \<Rightarrow> nat \<Rightarrow> aid \<Rightarrow> aid \<Rightarrow> nat \<Rightarrow> world \<Rightarrow> status_t \<times> world" where
  "PrepareDir path md uid gid attrs w =
     (let r = ans_PrepareDir w 0
      in (r, log (EvPrepareDir path md uid gid attrs r)
               (w\<lparr>ans_PrepareDir := next_ans (ans_PrepareDir w)\<rparr>)))"

definition ext4_Check :: "string \<Rightarrow> string \<Rightarrow> world \<Rightarrow> int \<times> world" where
  "ext4_Check source target w =
     (let r = ans_ext4_Check w 0
      in (r, log (EvExt4Check source target r)
               (w\<lparr>ans_ext4_Check := next_ans (ans_ext4_Check w)\<rparr>)))"

definition ext4_Mount ::
  "string \<Rightarrow> string \<Rightarrow> bool \<Rightarrow> bool \<Rightarrow> bool \<Rightarrow> world \<Rightarrow> status_t \<times> world" where
  "ext4_Mount source target ro remount executable w =
     (let r = ans_ext4_Mount w 0
      in (r, log (EvExt4Mount source target ro remount executable r)
               (w\<lparr>ans_ext4_Mount := next_ans (ans_ext4_Mount w)\<rparr>)))"

definition f2fs_Check :: "string \<Rightarrow> world \<Rightarrow> int \<times> world" where
  "f2fs_Check source w =
     (let r = ans_f2fs_Check w 0
      in (r, log (EvF2fsCheck source r)
               (w\<lparr>ans_f2fs_Check := next_ans (ans_f2fs_Check w)\<rparr>)))"

definition f2fs_Mount :: "string \<Rightarrow> string \<Rightarrow> world \<Rightarrow> status_t \<times> world" where
  "f2fs_Mount source target w =
     (let r = ans_f2fs_Mount w 0
      in (r, log (EvF2fsMount source target r)
               (w\<lparr>ans_f2fs_Mount := next_ans (ans_f2fs_Mount w)\<rparr>)))"

definition RestoreconRecursive :: "string \<Rightarrow> world \<Rightarrow> world" where
  "RestoreconRecursive path w = log (EvRestoreconRecursive path) w"

definition ForceUnmount :: "string \<Rightarrow> world \<Rightarrow> world" where
  "ForceUnmount path w = log (EvForceUnmount path) w"

text \<open>
  \<open>TEMP_FAILURE_RETRY(rmdir(path))\<close>: the macro of \<open>unistd.h\<close> repeats the call while it is
  interrupted; the answer is the value the macro finally yields.
\<close>

definition rmdir_retry :: "string \<Rightarrow> world \<Rightarrow> int \<times> world" where
  "rmdir_retry path w =
     (let r = ans_rmdir w 0
      in (r, log (EvRmdir path r) (w\<lparr>ans_rmdir := next_ans (ans_rmdir w)\<rparr>)))"

definition ext4_Format :: "string \<Rightarrow> nat \<Rightarrow> string \<Rightarrow> world \<Rightarrow> status_t \<times> world" where
  "ext4_Format source numSectors target w =
     (let r = ans_ext4_Format w 0
      in (r, log (EvExt4Format source numSectors target r)
               (w\<lparr>ans_ext4_Format := next_ans (ans_ext4_Format w)\<rparr>)))"

definition f2fs_Format :: "string \<Rightarrow> bool \<Rightarrow> string list \<Rightarrow> world \<Rightarrow> status_t \<times> world" where
  "f2fs_Format source is_zoned user_devices w =
     (let r = ans_f2fs_Format w 0
      in (r, log (EvF2fsFormat source is_zoned user_devices r)
               (w\<lparr>ans_f2fs_Format := next_ans (ans_f2fs_Format w)\<rparr>)))"

subsection \<open>The methods of PrivateVolume\<close>

text \<open>
  The constructor: identity and raw device path from the device numbers. Its third argument
  is the state of the base class that the methods read: whether a listener is registered.
\<close>

definition PrivateVolume :: "dev_t \<Rightarrow> string \<Rightarrow> bool \<Rightarrow> volume" where
  "PrivateVolume device keyRaw listener =
     (let ident = ''private:'' @ decimal (major device) @ '','' @ decimal (minor device)
      in \<lparr>getId = ident, getListener = listener, mRawDevice = device, mKeyRaw = keyRaw,
          mRawDevPath = ''/dev/block/vold/'' @ c_str ident, mDmDevPath = [],
          mFsType = [], mFsUuid = [], mFsLabel = [], mPath = []\<rparr>)"

definition readMetadata :: "volume \<Rightarrow> world \<Rightarrow> status_t \<times> volume \<times> world" where
  "readMetadata v w =
     (case ReadMetadata (mDmDevPath v) w of
        ((res, fsType, fsUuid, fsLabel), w1) \<Rightarrow>
          (let v1 = v\<lparr>mFsType := fsType, mFsUuid := fsUuid, mFsLabel := fsLabel\<rparr>;
               w2 = (if getListener v1
                     then onVolumeMetadataChanged (getId v1) (mFsType v1) (mFsUuid v1)
                            (mFsLabel v1) w1
                     else w1)
           in (res, v1, w2)))"

text \<open>
  The loop \<open>while (tries-- > 0)\<close> of \<open>doCreate\<close>; the first argument is \<open>tries\<close>. \<open>ret\<close> is the
  local of the source, which is declared without a value: the callers start it at \<open>False\<close>,
  and with \<open>tries = 10\<close> the body assigns it before it is read, so that the start value
  never shows (\<open>retry_DeleteDevice_initial\<close>, \<open>retry_DeleteDeviceIfExists_initial\<close> below).
\<close>

fun retry_DeleteDeviceIfExists :: "nat \<Rightarrow> bool \<Rightarrow> string \<Rightarrow> world \<Rightarrow> bool \<times> world" where
  "retry_DeleteDeviceIfExists 0 ret name w = (ret, w)"
| "retry_DeleteDeviceIfExists (Suc tries) ret name w =
     (case DeleteDeviceIfExists name w of
        ((ret', errno), w1) \<Rightarrow>
          if ret' \<or> errno \<noteq> EBUSY then (ret', w1)
          else retry_DeleteDeviceIfExists tries ret' name (sleep_for_milliseconds 100 w1))"

text \<open>The same loop in \<open>doDestroy\<close>, over \<open>DeleteDevice\<close>.\<close>

fun retry_DeleteDevice :: "nat \<Rightarrow> bool \<Rightarrow> string \<Rightarrow> world \<Rightarrow> bool \<times> world" where
  "retry_DeleteDevice 0 ret name w = (ret, w)"
| "retry_DeleteDevice (Suc tries) ret name w =
     (case DeleteDevice name w of
        ((ret', errno), w1) \<Rightarrow>
          if ret' \<or> errno \<noteq> EBUSY then (ret', w1)
          else retry_DeleteDevice tries ret' name (sleep_for_milliseconds 100 w1))"

text \<open>
  The loop \<open>while ((fd = open(...)) < 0)\<close> of \<open>doCreate\<close> with what follows it; the first
  argument is \<open>retries\<close>. A failed open with \<open>retries > 0\<close> sleeps and tries again, one
  with \<open>retries = 0\<close> closes and returns \<open>-EIO\<close>; a successful open closes and returns \<open>OK\<close>.
\<close>

fun poll_open :: "nat \<Rightarrow> string \<Rightarrow> world \<Rightarrow> status_t \<times> world" where
  "poll_open 0 path w =
     (case open_wronly (c_str path) w of
        (fd, w1) \<Rightarrow> if fd < 0 then (- EIO, close fd w1) else (OK, close fd w1))"
| "poll_open (Suc retries) path w =
     (case open_wronly (c_str path) w of
        (fd, w1) \<Rightarrow>
          if fd < 0 then poll_open retries path (sleep RETRY_MOUNT_DELAY_SECONDS w1)
          else (OK, close fd w1))"

definition doCreate :: "volume \<Rightarrow> world \<Rightarrow> status_t \<times> volume \<times> world" where
  "doCreate v w =
     (case CreateDeviceNode (mRawDevPath v) (mRawDevice v) w of
        (r, w1) \<Rightarrow>
          if r \<noteq> 0 then (- EIO, v, w1)
          else
            (case retry_DeleteDeviceIfExists 10 False (getId v) w1 of
               (ret, w2) \<Rightarrow>
                 if \<not> ret then (- EIO, v, w2)
                 else
                   (case setup_ext_volume (getId v) (mRawDevPath v) (mKeyRaw v) w2 of
                      ((ok, dmDevPath), w3) \<Rightarrow>
                        (let v1 = v\<lparr>mDmDevPath := dmDevPath\<rparr>
                         in if \<not> ok then (- EIO, v1, w3)
                            else
                              (case poll_open RETRY_MOUNT_ATTEMPTS (mDmDevPath v1) w3 of
                                 (st, w4) \<Rightarrow> (st, v1, w4))))))"

definition doDestroy :: "volume \<Rightarrow> world \<Rightarrow> status_t \<times> volume \<times> world" where
  "doDestroy v w =
     (case retry_DeleteDevice 10 False (getId v) w of
        (ret, w1) \<Rightarrow>
          if \<not> ret then (- EIO, v, w1)
          else
            (case DestroyDeviceNode (mRawDevPath v) w1 of
               (r, w2) \<Rightarrow> (r, v, w2)))"

text \<open>
  The chain of \<open>PrepareDir\<close> calls joined by \<open>||\<close> in \<open>doMount\<close>: the calls are made in order
  and the first one that does not return 0 ends the chain with \<open>True\<close>.
\<close>

fun prepare_any_failed :: "(string \<times> nat \<times> aid \<times> aid \<times> nat) list \<Rightarrow> world \<Rightarrow> bool \<times> world" where
  "prepare_any_failed [] w = (False, w)"
| "prepare_any_failed ((path, md, uid, gid, attrs) # ds) w =
     (case PrepareDir path md uid gid attrs w of
        (r, w1) \<Rightarrow> if r \<noteq> 0 then (True, w1) else prepare_any_failed ds w1)"

definition common_directories :: "string \<Rightarrow> nat \<Rightarrow> (string \<times> nat \<times> aid \<times> aid \<times> nat) list" where
  "common_directories path attrs =
     [(path @ ''/app'', mode 7 7 1, AID_SYSTEM, AID_SYSTEM, 0),
      (path @ ''/user'', mode 5 1 1, AID_SYSTEM, AID_SYSTEM, 0),
      (path @ ''/user_de'', mode 5 1 1, AID_SYSTEM, AID_SYSTEM, 0),
      (path @ ''/misc_ce'', mode 5 1 1, AID_SYSTEM, AID_SYSTEM, 0),
      (path @ ''/misc_de'', mode 5 1 1, AID_SYSTEM, AID_SYSTEM, 0),
      (path @ ''/media'', mode 5 5 0, AID_MEDIA_RW, AID_MEDIA_RW, attrs),
      (path @ ''/media/0'', mode 7 7 0, AID_MEDIA_RW, AID_MEDIA_RW, 0),
      (path @ ''/local'', mode 7 5 1, AID_ROOT, AID_ROOT, 0),
      (path @ ''/local/tmp'', mode 7 7 1, AID_SHELL, AID_SHELL, 0)]"

text \<open>What \<open>doMount\<close> does once a filesystem is mounted (from \<open>RestoreconRecursive\<close> on).\<close>

definition doMount_prepare :: "volume \<Rightarrow> world \<Rightarrow> status_t \<times> volume \<times> world" where
  "doMount_prepare v w =
     (let w1 = RestoreconRecursive (mPath v) w;
          attrs = (if \<not> IsSdcardfsUsed w1 then FS_CASEFOLD_FL else 0)
      in case prepare_any_failed (common_directories (mPath v) attrs) w1 of
           (failed, w2) \<Rightarrow> if failed then (- EIO, v, w2) else (OK, v, w2))"

definition doMount :: "volume \<Rightarrow> world \<Rightarrow> status_t \<times> volume \<times> world" where
  "doMount v w =
     (case readMetadata v w of
        (res, v1, w1) \<Rightarrow>
          if res \<noteq> 0 then (- EIO, v1, w1)
          else
            (let v2 = v1\<lparr>mPath := ''/mnt/expand/'' @ c_str (mFsUuid v1)\<rparr>;
                 w2 = setPath (mPath v2) w1
             in case PrepareDir (mPath v2) (mode 7 0 0) AID_ROOT AID_ROOT 0 w2 of
                  (r, w3) \<Rightarrow>
                    if r \<noteq> 0 then (- EIO, v2, w3)
                    else if mFsType v2 = ''ext4'' then
                      (case ext4_Check (mDmDevPath v2) (mPath v2) w3 of
                         (chk, w4) \<Rightarrow>
                           if chk = 0 \<or> chk = 1 then
                             (case ext4_Mount (mDmDevPath v2) (mPath v2) False False True w4 of
                                (m, w5) \<Rightarrow>
                                  if m \<noteq> 0 then (- EIO, v2, w5) else doMount_prepare v2 w5)
                           else (- EIO, v2, w4))
                    else if mFsType v2 = ''f2fs'' then
                      (case f2fs_Check (mDmDevPath v2) w3 of
                         (chk, w4) \<Rightarrow>
                           if chk = 0 then
                             (case f2fs_Mount (mDmDevPath v2) (mPath v2) w4 of
                                (m, w5) \<Rightarrow>
                                  if m \<noteq> 0 then (- EIO, v2, w5) else doMount_prepare v2 w5)
                           else (- EIO, v2, w4))
                    else (- EIO, v2, w3)))"

text \<open>
  \<open>doPostMount\<close>: one emulated volume per started user, over the media directory. Modelled
  from the spec: the construction of the child, its registration and its creation belong
  to other classes and are one event here.
\<close>

definition doPostMount :: "volume \<Rightarrow> world \<Rightarrow> volume \<times> world" where
  "doPostMount v w =
     (let mediaPath = mPath v @ ''/media''
      in (v, fold (\<lambda>user. log (EvAddEmulatedVolume mediaPath (mRawDevice v) (mFsUuid v) user))
               (getStartedUsers w) w))"

definition doUnmount :: "volume \<Rightarrow> world \<Rightarrow> status_t \<times> volume \<times> world" where
  "doUnmount v w =
     (let w1 = ForceUnmount (mPath v) w
      in case rmdir_retry (c_str (mPath v)) w1 of
           (r, w2) \<Rightarrow> (OK, v, w2))"

definition doFormat :: "string \<Rightarrow> volume \<Rightarrow> world \<Rightarrow> status_t \<times> volume \<times> world" where
  "doFormat fsType v w =
     (let resolvedFsType =
            (if fsType = ''auto'' then
               (if (major (mRawDevice v) = kMajorBlockMmc \<or>
                    major (mRawDevice v) = kMajorBlockLoop \<or>
                    IsVirtioBlkDevice w (major (mRawDevice v))) \<and> f2fs_IsSupported w
                then ''f2fs'' else ''ext4'')
             else fsType)
      in if resolvedFsType = ''ext4'' then
           (case ext4_Format (mDmDevPath v) 0 ''/data'' w of
              (r, w1) \<Rightarrow> if r \<noteq> 0 then (- EIO, v, w1) else (OK, v, w1))
         else if resolvedFsType = ''f2fs'' then
           (case f2fs_Format (mDmDevPath v) False [] w of
              (r, w1) \<Rightarrow> if r \<noteq> 0 then (- EIO, v, w1) else (OK, v, w1))
         else (- EINVAL, v, w))"

subsection \<open>Reading the trace\<close>

text \<open>\<open>k\<close> rounds of the retry loops: the attempt \<open>e\<close> and the sleep of 100 ms after it.\<close>

definition busy_rounds :: "nat \<Rightarrow> event \<Rightarrow> event list" where
  "busy_rounds k e = concat (replicate k [e, EvSleepMillis 100])"

fun is_DestroyDeviceNode :: "event \<Rightarrow> bool" where
  "is_DestroyDeviceNode (EvDestroyDeviceNode path r) = True"
| "is_DestroyDeviceNode _ = False"

fun is_DeleteDeviceIfExists :: "event \<Rightarrow> bool" where
  "is_DeleteDeviceIfExists (EvDeleteDeviceIfExists name ret errno) = True"
| "is_DeleteDeviceIfExists _ = False"

fun is_PrepareDir :: "event \<Rightarrow> bool" where
  "is_PrepareDir (EvPrepareDir path md uid gid attrs r) = True"
| "is_PrepareDir _ = False"

text \<open>A \<open>PrepareDir\<close> call that did not return 0.\<close>

fun failed_PrepareDir :: "event \<Rightarrow> bool" where
  "failed_PrepareDir (EvPrepareDir path md uid gid attrs r) = (r \<noteq> 0)"
| "failed_PrepareDir _ = False"

text \<open>The calls of the filesystem drivers that \<open>doMount\<close> can make.\<close>

fun is_check_or_mount :: "event \<Rightarrow> bool" where
  "is_check_or_mount (EvExt4Check source target r) = True"
| "is_check_or_mount (EvExt4Mount source target ro remount executable r) = True"
| "is_check_or_mount (EvF2fsCheck source r) = True"
| "is_check_or_mount (EvF2fsMount source target r) = True"
| "is_check_or_mount _ = False"

subsection \<open>Scenarios\<close>

text \<open>
  A world in which every collaborator succeeds at every call, a volume on an SD card, and
  the variations of that world used below.
\<close>

definition calm_world :: world where
  "calm_world =
     \<lparr>ans_CreateDeviceNode = (\<lambda>_. 0),
      ans_DeleteDeviceIfExists = (\<lambda>_. (True, 0)),
      ans_DeleteDevice = (\<lambda>_. (True, 0)),
      ans_setup_ext_volume = (\<lambda>_. (True, ''/dev/block/dm-4'')),
      ans_open = (\<lambda>_. 3),
      ans_DestroyDeviceNode = (\<lambda>_. 0),
      ans_ReadMetadata = (\<lambda>_. (0, ''ext4'', ''57f8-abf4'', ''data'')),
      ans_PrepareDir = (\<lambda>_. 0),
      ans_ext4_Check = (\<lambda>_. 0),
      ans_ext4_Mount = (\<lambda>_. 0),
      ans_f2fs_Check = (\<lambda>_. 0),
      ans_f2fs_Mount = (\<lambda>_. 0),
      ans_rmdir = (\<lambda>_. 0),
      ans_ext4_Format = (\<lambda>_. 0),
      ans_f2fs_Format = (\<lambda>_. 0),
      IsVirtioBlkDevice = (\<lambda>_. False),
      f2fs_IsSupported = True,
      IsSdcardfsUsed = False,
      getStartedUsers = [0],
      trace = []\<rparr>"

definition sd_card :: dev_t where
  "sd_card = \<lparr>major = 179, minor = 1\<rparr>"

definition sample_volume :: volume where
  "sample_volume = PrivateVolume sd_card ''k3y'' True"

text \<open>The device mapper refuses the removal with a reason other than busy.\<close>

definition refusing_world :: world where
  "refusing_world =
     calm_world\<lparr>ans_DeleteDeviceIfExists := (\<lambda>_. (False, ENOENT)),
                ans_DeleteDevice := (\<lambda>_. (False, ENOENT))\<rparr>"

text \<open>The device mapper is busy at the first nine removals and succeeds at the tenth.\<close>

definition busy9_world :: world where
  "busy9_world =
     calm_world\<lparr>ans_DeleteDeviceIfExists := (\<lambda>i. if i < 9 then (False, EBUSY) else (True, 0)),
                ans_DeleteDevice := (\<lambda>i. if i < 9 then (False, EBUSY) else (True, 0))\<rparr>"

text \<open>Encryption setup fails.\<close>

definition nosetup_world :: world where
  "nosetup_world = calm_world\<lparr>ans_setup_ext_volume := (\<lambda>_. (False, []))\<rparr>"

text \<open>The metadata names a filesystem that \<open>doMount\<close> does not support.\<close>

definition vfat_world :: world where
  "vfat_world = calm_world\<lparr>ans_ReadMetadata := (\<lambda>_. (0, ''vfat'', ''57f8-abf4'', ''data''))\<rparr>"

text \<open>The metadata cannot be read.\<close>

definition unreadable_world :: world where
  "unreadable_world = calm_world\<lparr>ans_ReadMetadata := (\<lambda>_. (- EIO, [], [], []))\<rparr>"

text \<open>The f2fs driver is not available.\<close>

definition no_f2fs_world :: world where
  "no_f2fs_world = calm_world\<lparr>f2fs_IsSupported := False\<rparr>"

definition hard_disk :: dev_t where
  "hard_disk = \<lparr>major = 8, minor = 0\<rparr>"

text \<open>The sample volume once \<open>doCreate\<close> has succeeded in the calm world.\<close>

definition created_volume :: volume where
  "created_volume = sample_volume\<lparr>mDmDevPath := ''/dev/block/dm-4''\<rparr>"

text \<open>The ext4 check reports errors left uncorrected.\<close>

definition dirty_ext4_world :: world where
  "dirty_ext4_world = calm_world\<lparr>ans_ext4_Check := (\<lambda>_. 4)\<rparr>"

text \<open>The metadata names f2fs.\<close>

definition f2fs_world :: world where
  "f2fs_world = calm_world\<lparr>ans_ReadMetadata := (\<lambda>_. (0, ''f2fs'', ''57f8-abf4'', ''data''))\<rparr>"

text \<open>The fourth \<open>PrepareDir\<close> call fails: the mount point and two directories are ready.\<close>

definition nodir_world :: world where
  "nodir_world = calm_world\<lparr>ans_PrepareDir := (\<lambda>i. if i = 3 then - 1 else 0)\<rparr>"

text \<open>The volume and the world after a successful \<open>doMount\<close> in the calm world.\<close>

definition mounted_volume :: volume where
  "mounted_volume = fst (snd (doMount created_volume calm_world))"

definition mounted_world :: world where
  "mounted_world = snd (snd (doMount created_volume calm_world))"

section \<open>Properties\<close>

subsection \<open>Evaluation and trace lemmas\<close>

lemmas calls = CreateDeviceNode_def DestroyDeviceNode_def DeleteDeviceIfExists_def DeleteDevice_def
  sleep_for_milliseconds_def sleep_def setup_ext_volume_def open_wronly_def close_def ReadMetadata_def
  onVolumeMetadataChanged_def setPath_def PrepareDir_def ext4_Check_def ext4_Mount_def f2fs_Check_def
  f2fs_Mount_def RestoreconRecursive_def ForceUnmount_def rmdir_retry_def ext4_Format_def f2fs_Format_def
  log_def next_ans_def Let_def

lemmas scenario = sample_volume_def PrivateVolume_def sd_card_def digit_def c_str_def
  calm_world_def refusing_world_def busy9_world_def nosetup_world_def vfat_world_def
  unreadable_world_def no_f2fs_world_def hard_disk_def created_volume_def dirty_ext4_world_def
  f2fs_world_def nodir_world_def
  OK_def EIO_def EBUSY_def ENOENT_def EINVAL_def

lemmas doMount_unfold = doMount_def doMount_prepare_def readMetadata_def common_directories_def

lemma run_projections: "f = (fst f, fst (snd f), snd (snd f))"
  by simp

lemma emitted_append: "trace w' = trace w @ evs \<Longrightarrow> emitted w w' = evs"
  by (simp add: emitted_def)

lemma busy_rounds_0: "busy_rounds 0 e = []"
  by (simp add: busy_rounds_def)

lemma busy_rounds_Suc: "busy_rounds (Suc k) e = e # EvSleepMillis 100 # busy_rounds k e"
  by (simp add: busy_rounds_def)

lemma length_busy_rounds: "length (busy_rounds k e) = 2 * k"
  by (induction k) (simp_all add: busy_rounds_0 busy_rounds_Suc)

subsection \<open>The retry loops\<close>

lemma retry_DeleteDevice_unfold:
  "0 < tries \<Longrightarrow> retry_DeleteDevice tries ret name w =
     (case DeleteDevice name w of
        ((ret', errno), w1) \<Rightarrow>
          if ret' \<or> errno \<noteq> EBUSY then (ret', w1)
          else retry_DeleteDevice (tries - 1) ret' name (sleep_for_milliseconds 100 w1))"
  by (cases tries) (simp_all split: prod.splits)

lemma retry_DeleteDeviceIfExists_unfold:
  "0 < tries \<Longrightarrow> retry_DeleteDeviceIfExists tries ret name w =
     (case DeleteDeviceIfExists name w of
        ((ret', errno), w1) \<Rightarrow>
          if ret' \<or> errno \<noteq> EBUSY then (ret', w1)
          else retry_DeleteDeviceIfExists (tries - 1) ret' name (sleep_for_milliseconds 100 w1))"
  by (cases tries) (simp_all split: prod.splits)

lemma retry_DeleteDevice_initial:
  "retry_DeleteDevice (Suc n) r name w = retry_DeleteDevice (Suc n) r' name w"
  by (simp split: prod.splits)

lemma retry_DeleteDeviceIfExists_initial:
  "retry_DeleteDeviceIfExists (Suc n) r name w = retry_DeleteDeviceIfExists (Suc n) r' name w"
  by (simp split: prod.splits)

lemma retry_DeleteDevice_cases:
  "retry_DeleteDevice n r name w = (ret, w') \<Longrightarrow>
     (\<exists>k<n. \<exists>e. ret \<and> trace w' = trace w @ busy_rounds k (EvDeleteDevice name False EBUSY) @
                       [EvDeleteDevice name True e]) \<or>
     (\<exists>k<n. \<exists>e. \<not> ret \<and> e \<noteq> EBUSY \<and>
              trace w' = trace w @ busy_rounds k (EvDeleteDevice name False EBUSY) @
                       [EvDeleteDevice name False e]) \<or>
     ((if n = 0 then ret = r else \<not> ret) \<and>
      trace w' = trace w @ busy_rounds n (EvDeleteDevice name False EBUSY))"
proof (induction n arbitrary: r w)
  case 0
  then show ?case by (simp add: busy_rounds_0)
next
  case (Suc n)
  obtain b e where ans: "ans_DeleteDevice w 0 = (b, e)"
    by (cases "ans_DeleteDevice w 0")
  show ?case
  proof (cases "b \<or> e \<noteq> EBUSY")
    case True
    with Suc.prems ans have "ret = b" and "trace w' = trace w @ [EvDeleteDevice name b e]"
      by (auto simp: calls)
    with True show ?thesis
      by (cases b) (auto simp: busy_rounds_0 intro: exI[of _ 0])
  next
    case False
    define w1 where "w1 = sleep_for_milliseconds 100 (snd (DeleteDevice name w))"
    from False Suc.prems ans have run: "retry_DeleteDevice n False name w1 = (ret, w')"
      by (simp add: w1_def calls)
    have tr1: "trace w1 = trace w @ [EvDeleteDevice name False EBUSY, EvSleepMillis 100]"
      using False ans by (simp add: w1_def calls)
    from Suc.IH[OF run] show ?thesis
    proof (elim disjE exE conjE)
      fix k e'
      assume "k < n" "ret" "trace w' = trace w1 @ busy_rounds k (EvDeleteDevice name False EBUSY) @
                       [EvDeleteDevice name True e']"
      then have "Suc k < Suc n \<and> ret \<and> trace w' = trace w @ busy_rounds (Suc k) (EvDeleteDevice name False EBUSY) @
                       [EvDeleteDevice name True e']"
        using tr1 by (simp add: busy_rounds_Suc)
      then show ?thesis by blast
    next
      fix k e'
      assume "k < n" "\<not> ret" "e' \<noteq> EBUSY" "trace w' = trace w1 @ busy_rounds k (EvDeleteDevice name False EBUSY) @
                       [EvDeleteDevice name False e']"
      then have "Suc k < Suc n \<and> \<not> ret \<and> e' \<noteq> EBUSY \<and> trace w' = trace w @ busy_rounds (Suc k) (EvDeleteDevice name False EBUSY) @
                       [EvDeleteDevice name False e']"
        using tr1 by (simp add: busy_rounds_Suc)
      then show ?thesis by blast
    next
      assume "if n = 0 then ret = False else \<not> ret"
        "trace w' = trace w1 @ busy_rounds n (EvDeleteDevice name False EBUSY)"
      then have "\<not> ret \<and> trace w' = trace w @ busy_rounds (Suc n) (EvDeleteDevice name False EBUSY)"
        using tr1 by (auto simp: busy_rounds_Suc split: if_splits)
      then show ?thesis by simp
    qed
  qed
qed

lemma retry_DeleteDevice_busy_then_ok:
  "k < n \<Longrightarrow> \<forall>i<k. ans_DeleteDevice w i = (False, EBUSY) \<Longrightarrow> fst (ans_DeleteDevice w k) \<Longrightarrow>
   retry_DeleteDevice n r name w =
     (True, w\<lparr>ans_DeleteDevice := (\<lambda>j. ans_DeleteDevice w (Suc k + j)),
              trace := trace w @ busy_rounds k (EvDeleteDevice name False EBUSY) @
                       [EvDeleteDevice name True (snd (ans_DeleteDevice w k))]\<rparr>)"
proof (induction n arbitrary: k w r)
  case 0
  then show ?case by simp
next
  case (Suc n)
  show ?case
  proof (cases k)
    case 0
    with Suc.prems show ?thesis
      by (cases "ans_DeleteDevice w 0") (simp add: calls busy_rounds_0)
  next
    case (Suc k')
    define w1 where "w1 = sleep_for_milliseconds 100 (snd (DeleteDevice name w))"
    from Suc Suc.prems have first: "ans_DeleteDevice w 0 = (False, EBUSY)"
      by simp
    have ans1: "ans_DeleteDevice w1 = (\<lambda>j. ans_DeleteDevice w (Suc j))"
      and tr1: "trace w1 = trace w @ [EvDeleteDevice name False EBUSY, EvSleepMillis 100]"
      using first by (simp_all add: w1_def calls)
    have step: "retry_DeleteDevice (Suc n) r name w = retry_DeleteDevice n False name w1"
      using first by (simp add: w1_def calls)
    have "retry_DeleteDevice n False name w1 =
            (True, w1\<lparr>ans_DeleteDevice := (\<lambda>j. ans_DeleteDevice w1 (Suc k' + j)),
              trace := trace w1 @ busy_rounds k' (EvDeleteDevice name False EBUSY) @
                       [EvDeleteDevice name True (snd (ans_DeleteDevice w1 k'))]\<rparr>)"
      using Suc Suc.prems by (intro Suc.IH) (simp_all add: ans1)
    also have "w1\<lparr>ans_DeleteDevice := (\<lambda>j. ans_DeleteDevice w1 (Suc k' + j)),
              trace := trace w1 @ busy_rounds k' (EvDeleteDevice name False EBUSY) @
                       [EvDeleteDevice name True (snd (ans_DeleteDevice w1 k'))]\<rparr> =
            w\<lparr>ans_DeleteDevice := (\<lambda>j. ans_DeleteDevice w (Suc k + j)),
              trace := trace w @ busy_rounds k (EvDeleteDevice name False EBUSY) @
                       [EvDeleteDevice name True (snd (ans_DeleteDevice w k))]\<rparr>"
      using first by (simp add: Suc busy_rounds_Suc w1_def calls)
    finally show ?thesis using step by simp
  qed
qed

lemma retry_DeleteDeviceIfExists_busy_then_ok:
  "k < n \<Longrightarrow> \<forall>i<k. ans_DeleteDeviceIfExists w i = (False, EBUSY) \<Longrightarrow>
   fst (ans_DeleteDeviceIfExists w k) \<Longrightarrow>
   retry_DeleteDeviceIfExists n r name w =
     (True, w\<lparr>ans_DeleteDeviceIfExists := (\<lambda>j. ans_DeleteDeviceIfExists w (Suc k + j)),
              trace := trace w @ busy_rounds k (EvDeleteDeviceIfExists name False EBUSY) @
                       [EvDeleteDeviceIfExists name True (snd (ans_DeleteDeviceIfExists w k))]\<rparr>)"
proof (induction n arbitrary: k w r)
  case 0
  then show ?case by simp
next
  case (Suc n)
  show ?case
  proof (cases k)
    case 0
    with Suc.prems show ?thesis
      by (cases "ans_DeleteDeviceIfExists w 0") (simp add: calls busy_rounds_0)
  next
    case (Suc k')
    define w1 where "w1 = sleep_for_milliseconds 100 (snd (DeleteDeviceIfExists name w))"
    from Suc Suc.prems have first: "ans_DeleteDeviceIfExists w 0 = (False, EBUSY)"
      by simp
    have ans1: "ans_DeleteDeviceIfExists w1 = (\<lambda>j. ans_DeleteDeviceIfExists w (Suc j))"
      and tr1: "trace w1 = trace w @ [EvDeleteDeviceIfExists name False EBUSY, EvSleepMillis 100]"
      using first by (simp_all add: w1_def calls)
    have step: "retry_DeleteDeviceIfExists (Suc n) r name w =
                retry_DeleteDeviceIfExists n False name w1"
      using first by (simp add: w1_def calls)
    have "retry_DeleteDeviceIfExists n False name w1 =
            (True, w1\<lparr>ans_DeleteDeviceIfExists := (\<lambda>j. ans_DeleteDeviceIfExists w1 (Suc k' + j)),
              trace := trace w1 @ busy_rounds k' (EvDeleteDeviceIfExists name False EBUSY) @
                       [EvDeleteDeviceIfExists name True (snd (ans_DeleteDeviceIfExists w1 k'))]\<rparr>)"
      using Suc Suc.prems by (intro Suc.IH) (simp_all add: ans1)
    also have "w1\<lparr>ans_DeleteDeviceIfExists := (\<lambda>j. ans_DeleteDeviceIfExists w1 (Suc k' + j)),
              trace := trace w1 @ busy_rounds k' (EvDeleteDeviceIfExists name False EBUSY) @
                       [EvDeleteDeviceIfExists name True (snd (ans_DeleteDeviceIfExists w1 k'))]\<rparr> =
            w\<lparr>ans_DeleteDeviceIfExists := (\<lambda>j. ans_DeleteDeviceIfExists w (Suc k + j)),
              trace := trace w @ busy_rounds k (EvDeleteDeviceIfExists name False EBUSY) @
                       [EvDeleteDeviceIfExists name True (snd (ans_DeleteDeviceIfExists w k))]\<rparr>"
      using first by (simp add: Suc busy_rounds_Suc w1_def calls)
    finally show ?thesis using step by simp
  qed
qed

lemma retry_DeleteDeviceIfExists_events:
  "retry_DeleteDeviceIfExists n False name w = (ret, w') \<Longrightarrow>
     \<exists>evs. trace w' = trace w @ evs \<and> (\<forall>e\<in>set evs. \<not> is_DestroyDeviceNode e) \<and>
           (ret \<longrightarrow> (\<exists>e. EvDeleteDeviceIfExists name True e \<in> set evs))"
proof (induction n arbitrary: w)
  case 0
  then show ?case by simp
next
  case (Suc n)
  obtain b e where ans: "ans_DeleteDeviceIfExists w 0 = (b, e)"
    by (cases "ans_DeleteDeviceIfExists w 0")
  show ?case
  proof (cases "b \<or> e \<noteq> EBUSY")
    case True
    with Suc.prems ans have "ret = b" and "trace w' = trace w @ [EvDeleteDeviceIfExists name b e]"
      by (auto simp: calls)
    then show ?thesis by auto
  next
    case False
    define w1 where "w1 = sleep_for_milliseconds 100 (snd (DeleteDeviceIfExists name w))"
    from False Suc.prems ans have run: "retry_DeleteDeviceIfExists n False name w1 = (ret, w')"
      by (simp add: w1_def calls)
    have tr1: "trace w1 = trace w @ [EvDeleteDeviceIfExists name False EBUSY, EvSleepMillis 100]"
      using False ans by (simp add: w1_def calls)
    from Suc.IH[OF run] obtain evs where
      evs: "trace w' = trace w1 @ evs" "\<forall>e\<in>set evs. \<not> is_DestroyDeviceNode e"
           "ret \<longrightarrow> (\<exists>e. EvDeleteDeviceIfExists name True e \<in> set evs)"
      by blast
    have "trace w' = trace w @ ([EvDeleteDeviceIfExists name False EBUSY, EvSleepMillis 100] @ evs)"
      using evs(1) tr1 by simp
    moreover have "\<forall>e\<in>set ([EvDeleteDeviceIfExists name False EBUSY, EvSleepMillis 100] @ evs).
                     \<not> is_DestroyDeviceNode e"
      using evs(2) by simp
    moreover have "ret \<longrightarrow> (\<exists>e. EvDeleteDeviceIfExists name True e \<in>
                     set ([EvDeleteDeviceIfExists name False EBUSY, EvSleepMillis 100] @ evs))"
      using evs(3) by auto
    ultimately show ?thesis by blast
  qed
qed

lemma poll_open_first_ok:
  "0 \<le> ans_open w 0 \<Longrightarrow>
   poll_open n path w =
     (OK, w\<lparr>ans_open := (\<lambda>j. ans_open w (Suc j)),
            trace := trace w @ [EvOpen (c_str path) (ans_open w 0), EvClose (ans_open w 0)]\<rparr>)"
  by (cases n) (simp_all add: calls)

lemma poll_open_events:
  "poll_open n path w = (st, w') \<Longrightarrow>
     \<exists>evs. trace w' = trace w @ evs \<and> (\<forall>e\<in>set evs. \<not> is_DestroyDeviceNode e) \<and>
           (\<forall>e\<in>set evs. \<not> is_DeleteDeviceIfExists e) \<and>
           (st = OK \<or> st = - EIO) \<and>
           (st = OK \<longrightarrow> (\<exists>fd\<ge>0. EvOpen (c_str path) fd \<in> set evs))"
proof (induction n arbitrary: w)
  case 0
  then show ?case
    by (auto simp: calls OK_def EIO_def split: if_splits)
next
  case (Suc n)
  show ?case
  proof (cases "ans_open w 0 < 0")
    case False
    with Suc.prems show ?thesis
      by (auto simp: calls)
  next
    case True
    define w1 where "w1 = sleep RETRY_MOUNT_DELAY_SECONDS (snd (open_wronly (c_str path) w))"
    from True Suc.prems have run: "poll_open n path w1 = (st, w')"
      by (simp add: w1_def calls)
    have tr1: "trace w1 = trace w @ [EvOpen (c_str path) (ans_open w 0),
                                     EvSleepSeconds RETRY_MOUNT_DELAY_SECONDS]"
      by (simp add: w1_def calls)
    from Suc.IH[OF run] obtain evs where
      evs: "trace w' = trace w1 @ evs" "\<forall>e\<in>set evs. \<not> is_DestroyDeviceNode e"
           "\<forall>e\<in>set evs. \<not> is_DeleteDeviceIfExists e"
           "st = OK \<or> st = - EIO" "st = OK \<longrightarrow> (\<exists>fd\<ge>0. EvOpen (c_str path) fd \<in> set evs)"
      by blast
    let ?evs = "[EvOpen (c_str path) (ans_open w 0), EvSleepSeconds RETRY_MOUNT_DELAY_SECONDS] @ evs"
    have "trace w' = trace w @ ?evs"
      using evs(1) tr1 by simp
    moreover have "\<forall>e\<in>set ?evs. \<not> is_DestroyDeviceNode e"
      using evs(2) by simp
    moreover have "\<forall>e\<in>set ?evs. \<not> is_DeleteDeviceIfExists e"
      using evs(3) by simp
    moreover have "st = OK \<longrightarrow> (\<exists>fd\<ge>0. EvOpen (c_str path) fd \<in> set ?evs)"
      using evs(5) by auto
    ultimately show ?thesis using evs(4) by blast
  qed
qed

lemma poll_open_status:
  "fst (poll_open n path w) = (if \<exists>j\<le>n. 0 \<le> ans_open w j then OK else - EIO)"
proof (induction n arbitrary: w)
  case 0
  show ?case
    by (simp add: calls)
next
  case (Suc n)
  show ?case
  proof (cases "ans_open w 0 < 0")
    case False
    then have "\<exists>j\<le>Suc n. 0 \<le> ans_open w j"
      by (intro exI[of _ 0]) simp
    with False show ?thesis
      by (simp add: calls)
  next
    case True
    define w1 where "w1 = sleep RETRY_MOUNT_DELAY_SECONDS (snd (open_wronly (c_str path) w))"
    have a1: "ans_open w1 = (\<lambda>j. ans_open w (Suc j))"
      by (simp add: w1_def calls)
    have "(\<exists>j\<le>Suc n. 0 \<le> ans_open w j) \<longleftrightarrow> (\<exists>j\<le>n. 0 \<le> ans_open w (Suc j))"
    proof
      assume "\<exists>j\<le>Suc n. 0 \<le> ans_open w j"
      then obtain j where j: "j \<le> Suc n" "0 \<le> ans_open w j"
        by blast
      with True obtain j' where "j = Suc j'"
        by (cases j) auto
      with j show "\<exists>j\<le>n. 0 \<le> ans_open w (Suc j)"
        by auto
    next
      assume "\<exists>j\<le>n. 0 \<le> ans_open w (Suc j)"
      then obtain j where "j \<le> n" "0 \<le> ans_open w (Suc j)"
        by blast
      then have "Suc j \<le> Suc n \<and> 0 \<le> ans_open w (Suc j)"
        by simp
      then show "\<exists>j\<le>Suc n. 0 \<le> ans_open w j"
        by blast
    qed
    moreover have "poll_open (Suc n) path w = poll_open n path w1"
      using True by (simp add: w1_def calls)
    ultimately show ?thesis
      using Suc.IH[of w1] by (simp add: a1)
  qed
qed

subsection \<open>Destruction\<close>

text \<open>
  C1 as stated fails: when the device mapper refuses the removal with a reason other than
  busy, \<open>doDestroy\<close> returns \<open>-EIO\<close> after that single attempt and the raw device node is
  not touched.
\<close>

theorem doDestroy_skips_node_counterexample:
  "fst (doDestroy sample_volume refusing_world) = - EIO \<and>
   emitted refusing_world (snd (snd (doDestroy sample_volume refusing_world))) =
     [EvDeleteDevice ''private:179,1'' False ENOENT]"
  by (simp add: doDestroy_def retry_DeleteDevice_unfold calls scenario emitted_def)

text \<open>
  C1 (as amended). \<open>doDestroy\<close> never looks at the state of the volume: it first attempts
  the removal of the block mapping for the identity, under the busy-retry policy. The
  removal of the raw device node is attempted afterwards exactly when an attempt on the
  mapping succeeded, and its status is what \<open>doDestroy\<close> returns. When the mapping removal
  fails, for a reason other than busy or by being busy at all ten attempts, \<open>doDestroy\<close>
  returns \<open>-EIO\<close> and the node removal is not attempted.
\<close>

theorem doDestroy_removals:
  "doDestroy v w = (st, v', w') \<Longrightarrow>
     v' = v \<and>
     ((\<exists>k<10. \<exists>e. emitted w w' = busy_rounds k (EvDeleteDevice (getId v) False EBUSY) @
                       [EvDeleteDevice (getId v) True e, EvDestroyDeviceNode (mRawDevPath v) st]) \<or>
      (\<exists>k<10. \<exists>e. e \<noteq> EBUSY \<and> st = - EIO \<and>
                emitted w w' = busy_rounds k (EvDeleteDevice (getId v) False EBUSY) @
                       [EvDeleteDevice (getId v) False e]) \<or>
      (st = - EIO \<and> emitted w w' = busy_rounds 10 (EvDeleteDevice (getId v) False EBUSY)))"
proof -
  assume run: "doDestroy v w = (st, v', w')"
  obtain ret w1 where loop: "retry_DeleteDevice 10 False (getId v) w = (ret, w1)"
    by (cases "retry_DeleteDevice 10 False (getId v) w")
  from retry_DeleteDevice_cases[OF loop] show ?thesis
  proof (elim disjE exE conjE)
    fix k e
    assume k: "k < 10" and "ret" and tr: "trace w1 = trace w @ busy_rounds k (EvDeleteDevice (getId v) False EBUSY) @
                       [EvDeleteDevice (getId v) True e]"
    with run loop have "v' = v" and "trace w' = trace w1 @ [EvDestroyDeviceNode (mRawDevPath v) st]"
      by (auto simp: doDestroy_def calls)
    with tr have "emitted w w' = busy_rounds k (EvDeleteDevice (getId v) False EBUSY) @
                       [EvDeleteDevice (getId v) True e, EvDestroyDeviceNode (mRawDevPath v) st]"
      by (simp add: emitted_append)
    with k \<open>v' = v\<close> show ?thesis by blast
  next
    fix k e
    assume k: "k < 10" and "\<not> ret" and e: "e \<noteq> EBUSY" and tr: "trace w1 = trace w @ busy_rounds k (EvDeleteDevice (getId v) False EBUSY) @
                       [EvDeleteDevice (getId v) False e]"
    with run loop have "v' = v" and "st = - EIO" and "w' = w1"
      by (auto simp: doDestroy_def)
    with tr k e show ?thesis by (auto simp: emitted_append)
  next
    assume "if (10::nat) = 0 then ret = False else \<not> ret"
      and tr: "trace w1 = trace w @ busy_rounds 10 (EvDeleteDevice (getId v) False EBUSY)"
    then have "\<not> ret" by simp
    with run loop have "v' = v" and "st = - EIO" and "w' = w1"
      by (auto simp: doDestroy_def)
    with tr show ?thesis by (simp add: emitted_append)
  qed
qed

text \<open>The amended C1 at the calm world: one removal of the mapping, then the node.\<close>

theorem doDestroy_removals_witness:
  "doDestroy sample_volume calm_world =
     (OK, sample_volume, snd (snd (doDestroy sample_volume calm_world))) \<and>
   emitted calm_world (snd (snd (doDestroy sample_volume calm_world))) =
     [EvDeleteDevice ''private:179,1'' True 0,
      EvDestroyDeviceNode ''/dev/block/vold/private:179,1'' OK]"
proof -
  have run: "doDestroy sample_volume calm_world =
     (OK, sample_volume, snd (snd (doDestroy sample_volume calm_world)))"
    by (simp add: doDestroy_def retry_DeleteDevice_unfold calls calm_world_def OK_def EBUSY_def)
  have ev: "emitted calm_world (snd (snd (doDestroy sample_volume calm_world))) =
     [EvDeleteDevice ''private:179,1'' True 0,
      EvDestroyDeviceNode ''/dev/block/vold/private:179,1'' OK]"
    by (simp add: doDestroy_def retry_DeleteDevice_unfold calls scenario emitted_def)
  from doDestroy_removals[OF run] run ev show ?thesis by simp
qed

subsection \<open>Creation\<close>

text \<open>
  C2 as stated fails: when encryption setup fails after the device node was created,
  \<open>doCreate\<close> returns \<open>-EIO\<close> and its run ends with the failed setup. The node created by
  the first call is not removed.
\<close>

theorem doCreate_dangling_node_counterexample:
  "fst (doCreate sample_volume nosetup_world) = - EIO \<and>
   emitted nosetup_world (snd (snd (doCreate sample_volume nosetup_world))) =
     [EvCreateDeviceNode ''/dev/block/vold/private:179,1'' sd_card 0,
      EvDeleteDeviceIfExists ''private:179,1'' True 0,
      EvSetupExtVolume ''private:179,1'' ''/dev/block/vold/private:179,1'' ''k3y'' False []]"
  by (simp add: doCreate_def retry_DeleteDeviceIfExists_unfold calls scenario emitted_def)

text \<open>
  C2 (as amended). \<open>doCreate\<close> returns \<open>OK\<close> or \<open>-EIO\<close>. It returns \<open>OK\<close> only after the device
  node was created, a removal of the stale mapping succeeded, encryption setup established
  the block mapping and the mapped device was opened. It never removes the raw device
  node: no run of \<open>doCreate\<close> calls \<open>DestroyDeviceNode\<close>, so when a step after the first fails
  the node created by the first step is left in place.
\<close>

theorem doCreate_leaves_node:
  "doCreate v w = (st, v', w') \<Longrightarrow>
     (st = OK \<or> st = - EIO) \<and>
     (st = OK \<longrightarrow>
        EvCreateDeviceNode (mRawDevPath v) (mRawDevice v) 0 \<in> set (emitted w w') \<and>
        (\<exists>e. EvDeleteDeviceIfExists (getId v) True e \<in> set (emitted w w')) \<and>
        EvSetupExtVolume (getId v) (mRawDevPath v) (mKeyRaw v) True (mDmDevPath v')
          \<in> set (emitted w w') \<and>
        (\<exists>fd\<ge>0. EvOpen (c_str (mDmDevPath v')) fd \<in> set (emitted w w'))) \<and>
     (\<forall>e\<in>set (emitted w w'). \<not> is_DestroyDeviceNode e) \<and>
     (ans_CreateDeviceNode w 0 = 0 \<longrightarrow>
        EvCreateDeviceNode (mRawDevPath v) (mRawDevice v) 0 \<in> set (emitted w w'))"
proof -
  assume run: "doCreate v w = (st, v', w')"
  let ?create = "EvCreateDeviceNode (mRawDevPath v) (mRawDevice v) (ans_CreateDeviceNode w 0)"
  obtain r w1 where c: "CreateDeviceNode (mRawDevPath v) (mRawDevice v) w = (r, w1)"
    by (cases "CreateDeviceNode (mRawDevPath v) (mRawDevice v) w")
  then have r: "r = ans_CreateDeviceNode w 0" and t1: "trace w1 = trace w @ [?create]"
    by (auto simp: calls)
  show ?thesis
  proof (cases "r = 0")
    case False
    with run c have "st = - EIO" "w' = w1"
      by (auto simp: doCreate_def)
    with t1 r False show ?thesis
      by (simp add: emitted_append OK_def EIO_def)
  next
    case True
    obtain ret w2 where loop: "retry_DeleteDeviceIfExists 10 False (getId v) w1 = (ret, w2)"
      by (cases "retry_DeleteDeviceIfExists 10 False (getId v) w1")
    from retry_DeleteDeviceIfExists_events[OF loop] obtain evs2 where
      t2: "trace w2 = trace w1 @ evs2" and n2: "\<forall>e\<in>set evs2. \<not> is_DestroyDeviceNode e" and
      d2: "ret \<longrightarrow> (\<exists>e. EvDeleteDeviceIfExists (getId v) True e \<in> set evs2)"
      by blast
    show ?thesis
    proof (cases ret)
      case False
      with run c loop True have "st = - EIO" "w' = w2"
        by (auto simp: doCreate_def)
      with t1 t2 n2 r True show ?thesis
        by (simp add: emitted_append OK_def EIO_def)
    next
      case ret: True
      obtain ok dm w3 where
        s: "setup_ext_volume (getId v) (mRawDevPath v) (mKeyRaw v) w2 = ((ok, dm), w3)"
        by (cases "setup_ext_volume (getId v) (mRawDevPath v) (mKeyRaw v) w2") auto
      then have t3: "trace w3 = trace w2 @
                       [EvSetupExtVolume (getId v) (mRawDevPath v) (mKeyRaw v) ok dm]"
        by (auto simp: calls)
      show ?thesis
      proof (cases ok)
        case False
        with run c loop True ret s have "st = - EIO" "w' = w3"
          by (auto simp: doCreate_def Let_def)
        with t1 t2 t3 n2 r True show ?thesis
          by (simp add: emitted_append OK_def EIO_def)
      next
        case ok: True
        obtain st4 w4 where p: "poll_open RETRY_MOUNT_ATTEMPTS dm w3 = (st4, w4)"
          by (cases "poll_open RETRY_MOUNT_ATTEMPTS dm w3")
        from poll_open_events[OF p] obtain evs4 where
          t4: "trace w4 = trace w3 @ evs4" and n4: "\<forall>e\<in>set evs4. \<not> is_DestroyDeviceNode e" and
          st4: "st4 = OK \<or> st4 = - EIO" and
          o4: "st4 = OK \<longrightarrow> (\<exists>fd\<ge>0. EvOpen (c_str dm) fd \<in> set evs4)"
          by blast
        from run c loop True ret s ok p have res: "st = st4" "w' = w4" "mDmDevPath v' = dm"
          by (auto simp: doCreate_def Let_def)
        have em: "emitted w w' = ?create # evs2 @
                    EvSetupExtVolume (getId v) (mRawDevPath v) (mKeyRaw v) ok dm # evs4"
          using t1 t2 t3 t4 res by (simp add: emitted_append)
        show ?thesis
          using em n2 n4 st4 o4 d2 ret ok res r True by auto
      qed
    qed
  qed
qed

text \<open>
  The amended C2 at the calm world, where every step succeeds.
\<close>

theorem doCreate_leaves_node_witness:
  "doCreate sample_volume calm_world =
     (OK, created_volume, snd (snd (doCreate sample_volume calm_world))) \<and>
   ans_CreateDeviceNode calm_world 0 = 0 \<and>
   EvCreateDeviceNode (mRawDevPath sample_volume) (mRawDevice sample_volume) 0
     \<in> set (emitted calm_world (snd (snd (doCreate sample_volume calm_world)))) \<and>
   filter is_DestroyDeviceNode
     (emitted calm_world (snd (snd (doCreate sample_volume calm_world)))) = []"
proof -
  have run: "doCreate sample_volume calm_world =
     (OK, created_volume, snd (snd (doCreate sample_volume calm_world)))"
    by (simp add: doCreate_def retry_DeleteDeviceIfExists_unfold poll_open_first_ok calls
        calm_world_def created_volume_def OK_def EBUSY_def)
  have ok: "ans_CreateDeviceNode calm_world 0 = 0"
    by (simp add: calm_world_def)
  from doCreate_leaves_node[OF run] run ok show ?thesis
    by (simp add: filter_empty_conv)
qed

subsection \<open>The boundary of the busy retry\<close>

text \<open>
  C4. The device mapper answers busy at the first nine removals and success at the tenth:
  the loop makes exactly ten attempts (nine busy rounds, each followed by its sleep, then
  the successful one) and ends with success, so that the operation succeeds whenever its
  other steps do. \<open>doDestroy\<close> removes the raw device node and returns the status of that
  removal, \<open>OK\<close> when it is 0. \<open>doCreate\<close>, the device node created before, goes on to
  encryption setup and the open poll, makes no further removal, and returns \<open>OK\<close> exactly
  when setup succeeds and one of the up to eleven opens does, \<open>-EIO\<close> otherwise. The device
  mapper answers a failure other than busy at the first removal: the operation returns
  \<open>-EIO\<close> and that attempt is the last event of its run.
\<close>

theorem busy_retry_boundary:
  "((\<forall>i<9. ans_DeleteDevice w i = (False, EBUSY)) \<and> fst (ans_DeleteDevice w 9) \<longrightarrow>
      fst (doDestroy v w) = ans_DestroyDeviceNode w 0 \<and>
      emitted w (snd (snd (doDestroy v w))) =
        busy_rounds 9 (EvDeleteDevice (getId v) False EBUSY) @
        [EvDeleteDevice (getId v) True (snd (ans_DeleteDevice w 9)),
         EvDestroyDeviceNode (mRawDevPath v) (ans_DestroyDeviceNode w 0)]) \<and>
   (\<not> fst (ans_DeleteDevice w 0) \<and> snd (ans_DeleteDevice w 0) \<noteq> EBUSY \<longrightarrow>
      fst (doDestroy v w) = - EIO \<and>
      emitted w (snd (snd (doDestroy v w))) =
        [EvDeleteDevice (getId v) False (snd (ans_DeleteDevice w 0))]) \<and>
   (ans_CreateDeviceNode w 0 = 0 \<and>
    (\<forall>i<9. ans_DeleteDeviceIfExists w i = (False, EBUSY)) \<and> fst (ans_DeleteDeviceIfExists w 9) \<longrightarrow>
      fst (doCreate v w) =
        (if fst (ans_setup_ext_volume w 0) \<and> (\<exists>j\<le>10. 0 \<le> ans_open w j) then OK else - EIO) \<and>
      (\<exists>rest. emitted w (snd (snd (doCreate v w))) =
          [EvCreateDeviceNode (mRawDevPath v) (mRawDevice v) 0] @
          busy_rounds 9 (EvDeleteDeviceIfExists (getId v) False EBUSY) @
          [EvDeleteDeviceIfExists (getId v) True (snd (ans_DeleteDeviceIfExists w 9)),
           EvSetupExtVolume (getId v) (mRawDevPath v) (mKeyRaw v)
             (fst (ans_setup_ext_volume w 0)) (snd (ans_setup_ext_volume w 0))] @ rest \<and>
          filter is_DeleteDeviceIfExists rest = [])) \<and>
   (ans_CreateDeviceNode w 0 = 0 \<and>
    \<not> fst (ans_DeleteDeviceIfExists w 0) \<and> snd (ans_DeleteDeviceIfExists w 0) \<noteq> EBUSY \<longrightarrow>
      fst (doCreate v w) = - EIO \<and>
      emitted w (snd (snd (doCreate v w))) =
        [EvCreateDeviceNode (mRawDevPath v) (mRawDevice v) 0,
         EvDeleteDeviceIfExists (getId v) False (snd (ans_DeleteDeviceIfExists w 0))])"
proof (intro conjI impI)
  assume h: "(\<forall>i<9. ans_DeleteDevice w i = (False, EBUSY)) \<and> fst (ans_DeleteDevice w 9)"
  then have loop: "retry_DeleteDevice 10 False (getId v) w =
     (True, w\<lparr>ans_DeleteDevice := (\<lambda>j. ans_DeleteDevice w (Suc 9 + j)),
              trace := trace w @ busy_rounds 9 (EvDeleteDevice (getId v) False EBUSY) @
                       [EvDeleteDevice (getId v) True (snd (ans_DeleteDevice w 9))]\<rparr>)"
    by (intro retry_DeleteDevice_busy_then_ok) simp_all
  show "fst (doDestroy v w) = ans_DestroyDeviceNode w 0"
    by (simp add: doDestroy_def loop calls)
  show "emitted w (snd (snd (doDestroy v w))) =
        busy_rounds 9 (EvDeleteDevice (getId v) False EBUSY) @
        [EvDeleteDevice (getId v) True (snd (ans_DeleteDevice w 9)),
         EvDestroyDeviceNode (mRawDevPath v) (ans_DestroyDeviceNode w 0)]"
    by (simp add: doDestroy_def loop calls emitted_def)
next
  assume h: "\<not> fst (ans_DeleteDevice w 0) \<and> snd (ans_DeleteDevice w 0) \<noteq> EBUSY"
  then have loop: "retry_DeleteDevice 10 False (getId v) w =
     (False, w\<lparr>ans_DeleteDevice := (\<lambda>j. ans_DeleteDevice w (Suc j)),
              trace := trace w @ [EvDeleteDevice (getId v) False (snd (ans_DeleteDevice w 0))]\<rparr>)"
    by (cases "ans_DeleteDevice w 0") (simp add: retry_DeleteDevice_unfold calls)
  show "fst (doDestroy v w) = - EIO"
    by (simp add: doDestroy_def loop)
  show "emitted w (snd (snd (doDestroy v w))) =
        [EvDeleteDevice (getId v) False (snd (ans_DeleteDevice w 0))]"
    by (simp add: doDestroy_def loop emitted_def)
next
  assume h: "ans_CreateDeviceNode w 0 = 0 \<and>
    (\<forall>i<9. ans_DeleteDeviceIfExists w i = (False, EBUSY)) \<and> fst (ans_DeleteDeviceIfExists w 9)"
  define w1 where "w1 = snd (CreateDeviceNode (mRawDevPath v) (mRawDevice v) w)"
  have w1: "ans_DeleteDeviceIfExists w1 = ans_DeleteDeviceIfExists w"
    "trace w1 = trace w @ [EvCreateDeviceNode (mRawDevPath v) (mRawDevice v) 0]"
    "ans_setup_ext_volume w1 = ans_setup_ext_volume w" "ans_open w1 = ans_open w"
    using h by (simp_all add: w1_def calls)
  have c: "CreateDeviceNode (mRawDevPath v) (mRawDevice v) w = (0, w1)"
    using h by (simp add: w1_def calls)
  define w2 where "w2 = snd (retry_DeleteDeviceIfExists 10 False (getId v) w1)"
  have "retry_DeleteDeviceIfExists 10 False (getId v) w1 =
     (True, w1\<lparr>ans_DeleteDeviceIfExists := (\<lambda>j. ans_DeleteDeviceIfExists w1 (Suc 9 + j)),
              trace := trace w1 @ busy_rounds 9 (EvDeleteDeviceIfExists (getId v) False EBUSY) @
                       [EvDeleteDeviceIfExists (getId v) True
                          (snd (ans_DeleteDeviceIfExists w1 9))]\<rparr>)"
    using h by (intro retry_DeleteDeviceIfExists_busy_then_ok) (simp_all add: w1)
  then have loop: "retry_DeleteDeviceIfExists 10 False (getId v) w1 = (True, w2)"
    and w2: "trace w2 = trace w1 @ busy_rounds 9 (EvDeleteDeviceIfExists (getId v) False EBUSY) @
                       [EvDeleteDeviceIfExists (getId v) True
                          (snd (ans_DeleteDeviceIfExists w 9))]"
      "ans_setup_ext_volume w2 = ans_setup_ext_volume w" "ans_open w2 = ans_open w"
    by (simp_all add: w2_def w1)
  obtain ok dm where s: "ans_setup_ext_volume w 0 = (ok, dm)"
    by (cases "ans_setup_ext_volume w 0")
  define w3 where "w3 = snd (setup_ext_volume (getId v) (mRawDevPath v) (mKeyRaw v) w2)"
  have su: "setup_ext_volume (getId v) (mRawDevPath v) (mKeyRaw v) w2 = ((ok, dm), w3)"
    and w3: "trace w3 = trace w2 @
               [EvSetupExtVolume (getId v) (mRawDevPath v) (mKeyRaw v) ok dm]"
      "ans_open w3 = ans_open w"
    using s by (simp_all add: w3_def calls w2)
  let ?head = "[EvCreateDeviceNode (mRawDevPath v) (mRawDevice v) 0] @
          busy_rounds 9 (EvDeleteDeviceIfExists (getId v) False EBUSY) @
          [EvDeleteDeviceIfExists (getId v) True (snd (ans_DeleteDeviceIfExists w 9)),
           EvSetupExtVolume (getId v) (mRawDevPath v) (mKeyRaw v) ok dm]"
  have t3: "trace w3 = trace w @ ?head"
    by (simp add: w1 w2 w3)
  have both: "fst (doCreate v w) = (if ok \<and> (\<exists>j\<le>10. 0 \<le> ans_open w j) then OK else - EIO) \<and>
      (\<exists>rest. emitted w (snd (snd (doCreate v w))) = ?head @ rest \<and>
              filter is_DeleteDeviceIfExists rest = [])"
  proof (cases ok)
    case False
    then have "doCreate v w = (- EIO, v\<lparr>mDmDevPath := dm\<rparr>, w3)"
      by (simp add: doCreate_def c loop su Let_def)
    moreover have "emitted w w3 = ?head @ []"
      using t3 by (simp add: emitted_append)
    ultimately show ?thesis
      using False by auto
  next
    case True
    obtain st4 w4 where p: "poll_open RETRY_MOUNT_ATTEMPTS dm w3 = (st4, w4)"
      by (cases "poll_open RETRY_MOUNT_ATTEMPTS dm w3")
    from poll_open_events[OF p] obtain evs4 where
      t4: "trace w4 = trace w3 @ evs4" and n4: "\<forall>e\<in>set evs4. \<not> is_DeleteDeviceIfExists e"
      by blast
    have "st4 = fst (poll_open RETRY_MOUNT_ATTEMPTS dm w3)"
      using p by simp
    then have st4: "st4 = (if \<exists>j\<le>10. 0 \<le> ans_open w j then OK else - EIO)"
      by (simp add: poll_open_status w3 RETRY_MOUNT_ATTEMPTS_def)
    have "doCreate v w = (st4, v\<lparr>mDmDevPath := dm\<rparr>, w4)"
      using True by (simp add: doCreate_def c loop su p Let_def)
    moreover have "emitted w w4 = ?head @ evs4"
      using t3 t4 by (simp add: emitted_append)
    moreover have "filter is_DeleteDeviceIfExists evs4 = []"
      using n4 by (simp add: filter_empty_conv)
    ultimately show ?thesis
      using True st4 by auto
  qed
  show "fst (doCreate v w) =
        (if fst (ans_setup_ext_volume w 0) \<and> (\<exists>j\<le>10. 0 \<le> ans_open w j) then OK else - EIO)"
    using both s by simp
  show "\<exists>rest. emitted w (snd (snd (doCreate v w))) =
          [EvCreateDeviceNode (mRawDevPath v) (mRawDevice v) 0] @
          busy_rounds 9 (EvDeleteDeviceIfExists (getId v) False EBUSY) @
          [EvDeleteDeviceIfExists (getId v) True (snd (ans_DeleteDeviceIfExists w 9)),
           EvSetupExtVolume (getId v) (mRawDevPath v) (mKeyRaw v)
             (fst (ans_setup_ext_volume w 0)) (snd (ans_setup_ext_volume w 0))] @ rest \<and>
          filter is_DeleteDeviceIfExists rest = []"
    using both s by simp
next
  assume h: "ans_CreateDeviceNode w 0 = 0 \<and>
    \<not> fst (ans_DeleteDeviceIfExists w 0) \<and> snd (ans_DeleteDeviceIfExists w 0) \<noteq> EBUSY"
  define w1 where "w1 = snd (CreateDeviceNode (mRawDevPath v) (mRawDevice v) w)"
  have w1: "ans_DeleteDeviceIfExists w1 = ans_DeleteDeviceIfExists w"
    "trace w1 = trace w @ [EvCreateDeviceNode (mRawDevPath v) (mRawDevice v) 0]"
    using h by (simp_all add: w1_def calls)
  have c: "CreateDeviceNode (mRawDevPath v) (mRawDevice v) w = (0, w1)"
    using h by (simp add: w1_def calls)
  have loop: "retry_DeleteDeviceIfExists 10 False (getId v) w1 =
     (False, w1\<lparr>ans_DeleteDeviceIfExists := (\<lambda>j. ans_DeleteDeviceIfExists w1 (Suc j)),
              trace := trace w1 @ [EvDeleteDeviceIfExists (getId v) False
                                    (snd (ans_DeleteDeviceIfExists w1 0))]\<rparr>)"
    using h by (cases "ans_DeleteDeviceIfExists w 0")
      (simp add: retry_DeleteDeviceIfExists_unfold calls w1)
  show "fst (doCreate v w) = - EIO"
    by (simp add: doCreate_def c loop)
  show "emitted w (snd (snd (doCreate v w))) =
        [EvCreateDeviceNode (mRawDevPath v) (mRawDevice v) 0,
         EvDeleteDeviceIfExists (getId v) False (snd (ans_DeleteDeviceIfExists w 0))]"
    by (simp add: doCreate_def c loop emitted_def w1)
qed

text \<open>
  C4 at two worlds: the device mapper busy nine times and then successful, where both
  operations return \<open>OK\<close>, and the device mapper refusing with \<open>ENOENT\<close>.
\<close>

theorem busy_retry_boundary_witness:
  "map (ans_DeleteDevice busy9_world) [0, 1, 2, 3, 4, 5, 6, 7, 8] = replicate 9 (False, EBUSY) \<and>
   fst (ans_DeleteDevice busy9_world 9) \<and>
   fst (doDestroy sample_volume busy9_world) = OK \<and>
   length (emitted busy9_world (snd (snd (doDestroy sample_volume busy9_world)))) = 20 \<and>
   ans_DeleteDevice refusing_world 0 = (False, ENOENT) \<and>
   fst (doDestroy sample_volume refusing_world) = - EIO \<and>
   ans_CreateDeviceNode busy9_world 0 = 0 \<and>
   map (ans_DeleteDeviceIfExists busy9_world) [0, 1, 2, 3, 4, 5, 6, 7, 8] =
     replicate 9 (False, EBUSY) \<and>
   fst (ans_DeleteDeviceIfExists busy9_world 9) \<and>
   fst (ans_setup_ext_volume busy9_world 0) \<and> 0 \<le> ans_open busy9_world 0 \<and>
   fst (doCreate sample_volume busy9_world) = OK \<and>
   ans_CreateDeviceNode refusing_world 0 = 0 \<and>
   ans_DeleteDeviceIfExists refusing_world 0 = (False, ENOENT) \<and>
   fst (doCreate sample_volume refusing_world) = - EIO"
proof -
  have d1: "(\<forall>i<9. ans_DeleteDevice busy9_world i = (False, EBUSY)) \<and>
    fst (ans_DeleteDevice busy9_world 9)"
    by (simp add: scenario)
  have d2: "\<not> fst (ans_DeleteDevice refusing_world 0) \<and>
    snd (ans_DeleteDevice refusing_world 0) \<noteq> EBUSY"
    by (simp add: scenario)
  have c1: "ans_CreateDeviceNode busy9_world 0 = 0 \<and>
    (\<forall>i<9. ans_DeleteDeviceIfExists busy9_world i = (False, EBUSY)) \<and>
    fst (ans_DeleteDeviceIfExists busy9_world 9)"
    by (simp add: scenario)
  have c1': "fst (ans_setup_ext_volume busy9_world 0) \<and> 0 \<le> ans_open busy9_world 0"
    by (simp add: scenario)
  then have opens: "\<exists>j\<le>10. 0 \<le> ans_open busy9_world j"
    by (intro exI[of _ 0]) simp
  have c2: "ans_CreateDeviceNode refusing_world 0 = 0 \<and>
    \<not> fst (ans_DeleteDeviceIfExists refusing_world 0) \<and>
    snd (ans_DeleteDeviceIfExists refusing_world 0) \<noteq> EBUSY"
    by (simp add: scenario)
  have scripts:
    "map (ans_DeleteDevice busy9_world) [0, 1, 2, 3, 4, 5, 6, 7, 8] = replicate 9 (False, EBUSY)"
    "map (ans_DeleteDeviceIfExists busy9_world) [0, 1, 2, 3, 4, 5, 6, 7, 8] =
       replicate 9 (False, EBUSY)"
    "ans_DeleteDevice refusing_world 0 = (False, ENOENT)"
    "ans_DeleteDeviceIfExists refusing_world 0 = (False, ENOENT)"
    by (simp_all add: scenario eval_nat_numeral)
  have r: "ans_DestroyDeviceNode busy9_world 0 = OK"
    by (simp add: scenario)
  have len: "length (busy_rounds 9 e) = 18" for e
    by (simp add: length_busy_rounds)
  note busy = busy_retry_boundary[of busy9_world sample_volume]
  note refused = busy_retry_boundary[of refusing_world sample_volume]
  have "fst (doDestroy sample_volume busy9_world) = OK"
    using busy d1 r by simp
  moreover have "length (emitted busy9_world (snd (snd (doDestroy sample_volume busy9_world)))) = 20"
    using busy d1 by (simp add: len)
  moreover have "fst (doDestroy sample_volume refusing_world) = - EIO"
    using refused d2 by simp
  moreover have "fst (doCreate sample_volume busy9_world) = OK"
    using busy c1 c1' opens by simp
  moreover have "fst (doCreate sample_volume refusing_world) = - EIO"
    using refused c2 by simp
  ultimately show ?thesis
    using d1 c1 c1' c2 scripts by simp
qed

subsection \<open>Metadata\<close>

text \<open>
  C9. \<open>readMetadata\<close> returns the status of \<open>ReadMetadata\<close> as it is and stores the three
  strings it produced. When a listener is registered, the notification with the identity
  and those three strings is the event right after the read, before \<open>readMetadata\<close> returns,
  whatever the status; without a listener the read is the only event.
\<close>

theorem readMetadata_propagates_and_notifies:
  "readMetadata v w = (st, v', w') \<Longrightarrow>
     st = fst (ans_ReadMetadata w 0) \<and>
     (mFsType v', mFsUuid v', mFsLabel v') = snd (ans_ReadMetadata w 0) \<and>
     emitted w w' =
       EvReadMetadata (mDmDevPath v) st (mFsType v') (mFsUuid v') (mFsLabel v') #
       (if getListener v
        then [EvVolumeMetadataChanged (getId v) (mFsType v') (mFsUuid v') (mFsLabel v')]
        else [])"
  by (cases "ans_ReadMetadata w 0") (auto simp: readMetadata_def calls emitted_def)

text \<open>
  C9 where the read fails: the status is passed on and the listener still hears of the
  (empty) values.
\<close>

theorem readMetadata_propagates_and_notifies_witness:
  "readMetadata sample_volume unreadable_world =
     (- EIO, sample_volume, snd (snd (readMetadata sample_volume unreadable_world))) \<and>
   getListener sample_volume \<and>
   emitted unreadable_world (snd (snd (readMetadata sample_volume unreadable_world))) =
     [EvReadMetadata [] (- EIO) [] [] [], EvVolumeMetadataChanged ''private:179,1'' [] [] []]"
proof -
  have run: "readMetadata sample_volume unreadable_world =
     (- EIO, sample_volume, snd (snd (readMetadata sample_volume unreadable_world)))"
    by (simp add: readMetadata_def calls scenario)
  have l: "getListener sample_volume" "getId sample_volume = ''private:179,1''"
    "mDmDevPath sample_volume = []" "mFsType sample_volume = []" "mFsUuid sample_volume = []"
    "mFsLabel sample_volume = []"
    by (simp_all add: scenario Let_def)
  from readMetadata_propagates_and_notifies[OF run] run l show ?thesis by simp
qed

subsection \<open>Mount\<close>

lemma prepare_any_failed_events:
  "prepare_any_failed ds w = (failed, w') \<Longrightarrow>
     \<exists>evs. trace w' = trace w @ evs \<and> (\<forall>e\<in>set evs. is_PrepareDir e) \<and>
           (\<not> failed \<longrightarrow> evs = map (\<lambda>(p, m, u, g, a). EvPrepareDir p m u g a 0) ds) \<and>
           ((\<exists>e\<in>set evs. failed_PrepareDir e) \<longrightarrow> failed)"
proof (induction ds arbitrary: w)
  case Nil
  then show ?case by simp
next
  case (Cons d ds)
  obtain p m u g a where d: "d = (p, m, u, g, a)"
    by (cases d)
  let ?e = "EvPrepareDir p m u g a (ans_PrepareDir w 0)"
  show ?case
  proof (cases "ans_PrepareDir w 0 = 0")
    case False
    with Cons.prems d have "failed" "trace w' = trace w @ [?e]"
      by (auto simp: calls)
    then show ?thesis by auto
  next
    case True
    define w1 where "w1 = snd (PrepareDir p m u g a w)"
    from True Cons.prems d have run: "prepare_any_failed ds w1 = (failed, w')"
      by (simp add: w1_def calls)
    have tr1: "trace w1 = trace w @ [?e]"
      by (simp add: w1_def calls)
    from Cons.IH[OF run] obtain evs where
      evs: "trace w' = trace w1 @ evs" "\<forall>e\<in>set evs. is_PrepareDir e"
        "\<not> failed \<longrightarrow> evs = map (\<lambda>(p, m, u, g, a). EvPrepareDir p m u g a 0) ds"
        "(\<exists>e\<in>set evs. failed_PrepareDir e) \<longrightarrow> failed"
      by blast
    have "trace w' = trace w @ (?e # evs)"
      using evs(1) tr1 by simp
    moreover have "\<forall>e\<in>set (?e # evs). is_PrepareDir e"
      using evs(2) by simp
    moreover have "\<not> failed \<longrightarrow>
        ?e # evs = map (\<lambda>(p, m, u, g, a). EvPrepareDir p m u g a 0) (d # ds)"
      using evs(3) True d by simp
    moreover have "(\<exists>e\<in>set (?e # evs). failed_PrepareDir e) \<longrightarrow> failed"
      using evs(4) True by simp
    ultimately have "trace w' = trace w @ (?e # evs) \<and> (\<forall>e\<in>set (?e # evs). is_PrepareDir e) \<and>
           (\<not> failed \<longrightarrow> ?e # evs = map (\<lambda>(p, m, u, g, a). EvPrepareDir p m u g a 0) (d # ds)) \<and>
           ((\<exists>e\<in>set (?e # evs). failed_PrepareDir e) \<longrightarrow> failed)"
      by (intro conjI)
    then show ?thesis by (rule exI)
  qed
qed

lemma doMount_prepare_events:
  "doMount_prepare v w = (st, v', w') \<Longrightarrow>
     v' = v \<and> (st = OK \<or> st = - EIO) \<and>
     (\<exists>evs. trace w' = trace w @ EvRestoreconRecursive (mPath v) # evs \<and>
            (\<forall>e\<in>set evs. is_PrepareDir e) \<and>
            (st = OK \<longrightarrow> evs = map (\<lambda>(p, m, u, g, a). EvPrepareDir p m u g a 0)
               (common_directories (mPath v) (if IsSdcardfsUsed w then 0 else FS_CASEFOLD_FL))) \<and>
            ((\<exists>e\<in>set evs. failed_PrepareDir e) \<longrightarrow> st = - EIO))"
proof -
  assume run: "doMount_prepare v w = (st, v', w')"
  define w1 where "w1 = RestoreconRecursive (mPath v) w"
  define ds where "ds = common_directories (mPath v) (if IsSdcardfsUsed w then 0 else FS_CASEFOLD_FL)"
  have w1: "trace w1 = trace w @ [EvRestoreconRecursive (mPath v)]"
    "IsSdcardfsUsed w1 = IsSdcardfsUsed w"
    by (simp_all add: w1_def calls)
  obtain failed w2 where p: "prepare_any_failed ds w1 = (failed, w2)"
    by (cases "prepare_any_failed ds w1")
  have "doMount_prepare v w =
          (case prepare_any_failed ds w1 of
             (failed, w2) \<Rightarrow> if failed then (- EIO, v, w2) else (OK, v, w2))"
    unfolding doMount_prepare_def Let_def w1_def[symmetric] w1(2) ds_def
    by (cases "IsSdcardfsUsed w") simp_all
  with run p have res: "v' = v" "w' = w2" "st = (if failed then - EIO else OK)"
    by (cases failed; simp)+
  from prepare_any_failed_events[OF p] obtain evs where
    evs: "trace w2 = trace w1 @ evs" "\<forall>e\<in>set evs. is_PrepareDir e"
      "\<not> failed \<longrightarrow> evs = map (\<lambda>(p, m, u, g, a). EvPrepareDir p m u g a 0) ds"
      "(\<exists>e\<in>set evs. failed_PrepareDir e) \<longrightarrow> failed"
    by blast
  have nf: "st = OK \<longleftrightarrow> \<not> failed" "st = OK \<or> st = - EIO"
    using res(3) by (simp_all add: OK_def EIO_def)
  have "trace w' = trace w @ EvRestoreconRecursive (mPath v) # evs"
    using evs(1) w1(1) res(2) by simp
  moreover have "st = OK \<longrightarrow> evs = map (\<lambda>(p, m, u, g, a). EvPrepareDir p m u g a 0) ds"
    using evs(3) nf(1) by simp
  moreover have "(\<exists>e\<in>set evs. failed_PrepareDir e) \<longrightarrow> st = - EIO"
    using evs(4) res(3) by simp
  ultimately have "trace w' = trace w @ EvRestoreconRecursive (mPath v) # evs \<and>
            (\<forall>e\<in>set evs. is_PrepareDir e) \<and>
            (st = OK \<longrightarrow> evs = map (\<lambda>(p, m, u, g, a). EvPrepareDir p m u g a 0) ds) \<and>
            ((\<exists>e\<in>set evs. failed_PrepareDir e) \<longrightarrow> st = - EIO)"
    using evs(2) by (intro conjI)
  then have "\<exists>evs. trace w' = trace w @ EvRestoreconRecursive (mPath v) # evs \<and>
            (\<forall>e\<in>set evs. is_PrepareDir e) \<and>
            (st = OK \<longrightarrow> evs = map (\<lambda>(p, m, u, g, a). EvPrepareDir p m u g a 0) ds) \<and>
            ((\<exists>e\<in>set evs. failed_PrepareDir e) \<longrightarrow> st = - EIO)"
    by (rule exI)
  with res(1) nf(2) show ?thesis
    unfolding ds_def by (intro conjI)
qed

lemma doMount_shape:
  assumes run: "doMount v w = (st, v', w')"
    and rd: "ans_ReadMetadata w 0 = (res, t, u, l)"
    and path_def: "path = ''/mnt/expand/'' @ c_str u"
    and meta_def: "meta = EvReadMetadata (mDmDevPath v) res t u l #
                    (if getListener v then [EvVolumeMetadataChanged (getId v) t u l] else [])"
    and pre_def: "pre = (if res = 0
                   then [EvSetPath path,
                         EvPrepareDir path (mode 7 0 0) AID_ROOT AID_ROOT 0 (ans_PrepareDir w 0)]
                   else [])"
    and drv_def: "drv =
     (if res = 0 \<and> ans_PrepareDir w 0 = 0 then
        (if t = ''ext4'' then
           EvExt4Check (mDmDevPath v) path (ans_ext4_Check w 0) #
           (if ans_ext4_Check w 0 = 0 \<or> ans_ext4_Check w 0 = 1
            then [EvExt4Mount (mDmDevPath v) path False False True (ans_ext4_Mount w 0)]
            else [])
         else if t = ''f2fs'' then
           EvF2fsCheck (mDmDevPath v) (ans_f2fs_Check w 0) #
           (if ans_f2fs_Check w 0 = 0
            then [EvF2fsMount (mDmDevPath v) path (ans_f2fs_Mount w 0)]
            else [])
         else [])
      else [])"
    and mounted_def: "mounted = (res = 0 \<and> ans_PrepareDir w 0 = 0 \<and>
     (t = ''ext4'' \<and> (ans_ext4_Check w 0 = 0 \<or> ans_ext4_Check w 0 = 1) \<and>
        ans_ext4_Mount w 0 = 0 \<or>
      t = ''f2fs'' \<and> ans_f2fs_Check w 0 = 0 \<and> ans_f2fs_Mount w 0 = 0))"
  shows "v' = (if res = 0 then v\<lparr>mFsType := t, mFsUuid := u, mFsLabel := l, mPath := path\<rparr>
               else v\<lparr>mFsType := t, mFsUuid := u, mFsLabel := l\<rparr>) \<and>
         (st = OK \<or> st = - EIO) \<and>
         (if mounted
          then \<exists>evs. emitted w w' = meta @ pre @ drv @ EvRestoreconRecursive path # evs \<and>
                 (\<forall>e\<in>set evs. is_PrepareDir e) \<and>
                 (st = OK \<longrightarrow> evs = map (\<lambda>(p, m, u, g, a). EvPrepareDir p m u g a 0)
                    (common_directories path (if IsSdcardfsUsed w then 0 else FS_CASEFOLD_FL))) \<and>
                 ((\<exists>e\<in>set evs. failed_PrepareDir e) \<longrightarrow> st = - EIO)
          else st = - EIO \<and> emitted w w' = meta @ pre @ drv)"
proof -
  define v2 where "v2 = v\<lparr>mFsType := t, mFsUuid := u, mFsLabel := l, mPath := path\<rparr>"
  note defs = path_def meta_def pre_def drv_def mounted_def v2_def
  note unfold = doMount_def readMetadata_def calls emitted_def
  consider (nometa) "res \<noteq> 0"
    | (nodir) "res = 0" "ans_PrepareDir w 0 \<noteq> 0"
    | (ext4_bad) "res = 0" "ans_PrepareDir w 0 = 0" "t = ''ext4''"
        "\<not> (ans_ext4_Check w 0 = 0 \<or> ans_ext4_Check w 0 = 1)"
    | (ext4_nomount) "res = 0" "ans_PrepareDir w 0 = 0" "t = ''ext4''"
        "ans_ext4_Check w 0 = 0 \<or> ans_ext4_Check w 0 = 1" "ans_ext4_Mount w 0 \<noteq> 0"
    | (ext4) "res = 0" "ans_PrepareDir w 0 = 0" "t = ''ext4''"
        "ans_ext4_Check w 0 = 0 \<or> ans_ext4_Check w 0 = 1" "ans_ext4_Mount w 0 = 0"
    | (f2fs_bad) "res = 0" "ans_PrepareDir w 0 = 0" "t = ''f2fs''" "ans_f2fs_Check w 0 \<noteq> 0"
    | (f2fs_nomount) "res = 0" "ans_PrepareDir w 0 = 0" "t = ''f2fs''"
        "ans_f2fs_Check w 0 = 0" "ans_f2fs_Mount w 0 \<noteq> 0"
    | (f2fs) "res = 0" "ans_PrepareDir w 0 = 0" "t = ''f2fs''"
        "ans_f2fs_Check w 0 = 0" "ans_f2fs_Mount w 0 = 0"
    | (other) "res = 0" "ans_PrepareDir w 0 = 0" "t \<noteq> ''ext4''" "t \<noteq> ''f2fs''"
    by blast
  then show ?thesis
  proof cases
    case nometa
    with run rd show ?thesis
      by (auto simp: unfold defs OK_def EIO_def)
  next
    case nodir
    with run rd show ?thesis
      by (auto simp: unfold defs OK_def EIO_def)
  next
    case ext4_bad
    with run rd show ?thesis
      by (auto simp: unfold defs OK_def EIO_def)
  next
    case ext4_nomount
    with run rd show ?thesis
      by (auto simp: unfold defs OK_def EIO_def)
  next
    case f2fs_bad
    with run rd show ?thesis
      by (auto simp: unfold defs OK_def EIO_def)
  next
    case f2fs_nomount
    with run rd show ?thesis
      by (auto simp: unfold defs OK_def EIO_def)
  next
    case other
    with run rd show ?thesis
      by (auto simp: unfold defs OK_def EIO_def)
  next
    case ext4
    define w5 where "w5 = snd (ext4_Mount (mDmDevPath v) path False False True
      (snd (ext4_Check (mDmDevPath v) path
         (snd (PrepareDir path (mode 7 0 0) AID_ROOT AID_ROOT 0
            (setPath path (snd (snd (readMetadata v w)))))))))"
    have eq: "doMount v w = doMount_prepare v2 w5"
      using rd ext4 by (auto simp: doMount_def readMetadata_def calls w5_def defs)
    have w5: "trace w5 = trace w @ meta @ pre @ drv" "IsSdcardfsUsed w5 = IsSdcardfsUsed w"
      using rd ext4 by (auto simp: readMetadata_def calls w5_def defs)
    have m: "mounted" "res = 0"
      using ext4 by (auto simp: mounted_def)
    from run eq have "doMount_prepare v2 w5 = (st, v', w')"
      by simp
    from doMount_prepare_events[OF this] obtain evs where
      a: "v' = v2" "st = OK \<or> st = - EIO" and
      b: "trace w' = trace w5 @ EvRestoreconRecursive (mPath v2) # evs" and
      c: "\<forall>e\<in>set evs. is_PrepareDir e"
         "st = OK \<longrightarrow> evs = map (\<lambda>(p, m, u, g, a). EvPrepareDir p m u g a 0)
            (common_directories (mPath v2) (if IsSdcardfsUsed w5 then 0 else FS_CASEFOLD_FL))"
         "(\<exists>e\<in>set evs. failed_PrepareDir e) \<longrightarrow> st = - EIO"
      by blast
    have p: "mPath v2 = path"
      by (simp add: v2_def)
    have "emitted w w' = meta @ pre @ drv @ EvRestoreconRecursive path # evs"
      using b w5(1) p by (simp add: emitted_append)
    with c have "emitted w w' = meta @ pre @ drv @ EvRestoreconRecursive path # evs \<and>
                 (\<forall>e\<in>set evs. is_PrepareDir e) \<and>
                 (st = OK \<longrightarrow> evs = map (\<lambda>(p, m, u, g, a). EvPrepareDir p m u g a 0)
                    (common_directories path (if IsSdcardfsUsed w then 0 else FS_CASEFOLD_FL))) \<and>
                 ((\<exists>e\<in>set evs. failed_PrepareDir e) \<longrightarrow> st = - EIO)"
      unfolding p w5(2) by (intro conjI)
    then have "\<exists>evs. emitted w w' = meta @ pre @ drv @ EvRestoreconRecursive path # evs \<and>
                 (\<forall>e\<in>set evs. is_PrepareDir e) \<and>
                 (st = OK \<longrightarrow> evs = map (\<lambda>(p, m, u, g, a). EvPrepareDir p m u g a 0)
                    (common_directories path (if IsSdcardfsUsed w then 0 else FS_CASEFOLD_FL))) \<and>
                 ((\<exists>e\<in>set evs. failed_PrepareDir e) \<longrightarrow> st = - EIO)"
      by (rule exI)
    with a m show ?thesis
      by (simp add: v2_def)
  next
    case f2fs
    define w5 where "w5 = snd (f2fs_Mount (mDmDevPath v) path
      (snd (f2fs_Check (mDmDevPath v)
         (snd (PrepareDir path (mode 7 0 0) AID_ROOT AID_ROOT 0
            (setPath path (snd (snd (readMetadata v w)))))))))"
    have eq: "doMount v w = doMount_prepare v2 w5"
      using rd f2fs by (auto simp: doMount_def readMetadata_def calls w5_def defs)
    have w5: "trace w5 = trace w @ meta @ pre @ drv" "IsSdcardfsUsed w5 = IsSdcardfsUsed w"
      using rd f2fs by (auto simp: readMetadata_def calls w5_def defs)
    have m: "mounted" "res = 0"
      using f2fs by (auto simp: mounted_def)
    from run eq have "doMount_prepare v2 w5 = (st, v', w')"
      by simp
    from doMount_prepare_events[OF this] obtain evs where
      a: "v' = v2" "st = OK \<or> st = - EIO" and
      b: "trace w' = trace w5 @ EvRestoreconRecursive (mPath v2) # evs" and
      c: "\<forall>e\<in>set evs. is_PrepareDir e"
         "st = OK \<longrightarrow> evs = map (\<lambda>(p, m, u, g, a). EvPrepareDir p m u g a 0)
            (common_directories (mPath v2) (if IsSdcardfsUsed w5 then 0 else FS_CASEFOLD_FL))"
         "(\<exists>e\<in>set evs. failed_PrepareDir e) \<longrightarrow> st = - EIO"
      by blast
    have p: "mPath v2 = path"
      by (simp add: v2_def)
    have "emitted w w' = meta @ pre @ drv @ EvRestoreconRecursive path # evs"
      using b w5(1) p by (simp add: emitted_append)
    with c have "emitted w w' = meta @ pre @ drv @ EvRestoreconRecursive path # evs \<and>
                 (\<forall>e\<in>set evs. is_PrepareDir e) \<and>
                 (st = OK \<longrightarrow> evs = map (\<lambda>(p, m, u, g, a). EvPrepareDir p m u g a 0)
                    (common_directories path (if IsSdcardfsUsed w then 0 else FS_CASEFOLD_FL))) \<and>
                 ((\<exists>e\<in>set evs. failed_PrepareDir e) \<longrightarrow> st = - EIO)"
      unfolding p w5(2) by (intro conjI)
    then have "\<exists>evs. emitted w w' = meta @ pre @ drv @ EvRestoreconRecursive path # evs \<and>
                 (\<forall>e\<in>set evs. is_PrepareDir e) \<and>
                 (st = OK \<longrightarrow> evs = map (\<lambda>(p, m, u, g, a). EvPrepareDir p m u g a 0)
                    (common_directories path (if IsSdcardfsUsed w then 0 else FS_CASEFOLD_FL))) \<and>
                 ((\<exists>e\<in>set evs. failed_PrepareDir e) \<longrightarrow> st = - EIO)"
      by (rule exI)
    with a m show ?thesis
      by (simp add: v2_def)
  qed
qed

lemma PrepareDir_not_driver: "is_PrepareDir e \<Longrightarrow> \<not> is_check_or_mount e"
  by (cases e) simp_all

lemma filter_driver_PrepareDir:
  "\<forall>e\<in>set evs. is_PrepareDir e \<Longrightarrow> filter is_check_or_mount evs = []"
  by (induction evs) (simp_all add: PrepareDir_not_driver)

lemma filter_PrepareDir_all:
  "\<forall>e\<in>set evs. is_PrepareDir e \<Longrightarrow> filter is_PrepareDir evs = evs"
  by (induction evs) simp_all

text \<open>
  C5. \<open>doMount\<close> dispatches on the \<open>fsType\<close> that the metadata read stored. Once the read
  and the preparation of the mount point have succeeded: for "ext4" the check runs first
  and the mount is attempted, right after it, exactly when the check returned 0 or 1, any
  other code gives \<open>-EIO\<close> with the check as the only driver call; for "f2fs" the same with
  0 as the only accepted code. For every other \<open>fsType\<close> \<open>doMount\<close> returns \<open>-EIO\<close> and calls
  neither a check nor a mount, as it does when it fails before the dispatch.
\<close>

theorem doMount_dispatch:
  "doMount v w = (st, v', w') \<Longrightarrow> ans_ReadMetadata w 0 = (res, t, u, l) \<Longrightarrow>
   mFsType v' = t \<and>
   (res = 0 \<and> ans_PrepareDir w 0 = 0 \<and> t = ''ext4'' \<longrightarrow>
      (if ans_ext4_Check w 0 = 0 \<or> ans_ext4_Check w 0 = 1
       then filter is_check_or_mount (emitted w w') =
              [EvExt4Check (mDmDevPath v) (mPath v') (ans_ext4_Check w 0),
               EvExt4Mount (mDmDevPath v) (mPath v') False False True (ans_ext4_Mount w 0)]
       else st = - EIO \<and>
            filter is_check_or_mount (emitted w w') =
              [EvExt4Check (mDmDevPath v) (mPath v') (ans_ext4_Check w 0)])) \<and>
   (res = 0 \<and> ans_PrepareDir w 0 = 0 \<and> t = ''f2fs'' \<longrightarrow>
      (if ans_f2fs_Check w 0 = 0
       then filter is_check_or_mount (emitted w w') =
              [EvF2fsCheck (mDmDevPath v) 0,
               EvF2fsMount (mDmDevPath v) (mPath v') (ans_f2fs_Mount w 0)]
       else st = - EIO \<and>
            filter is_check_or_mount (emitted w w') =
              [EvF2fsCheck (mDmDevPath v) (ans_f2fs_Check w 0)])) \<and>
   (t \<noteq> ''ext4'' \<and> t \<noteq> ''f2fs'' \<longrightarrow>
      st = - EIO \<and> filter is_check_or_mount (emitted w w') = []) \<and>
   (res \<noteq> 0 \<or> ans_PrepareDir w 0 \<noteq> 0 \<longrightarrow>
      st = - EIO \<and> filter is_check_or_mount (emitted w w') = [])"
proof -
  assume run: "doMount v w = (st, v', w')" and rd: "ans_ReadMetadata w 0 = (res, t, u, l)"
  define path where "path = ''/mnt/expand/'' @ c_str u"
  define meta where "meta = EvReadMetadata (mDmDevPath v) res t u l #
                    (if getListener v then [EvVolumeMetadataChanged (getId v) t u l] else [])"
  define pre where "pre = (if res = 0
                   then [EvSetPath path,
                         EvPrepareDir path (mode 7 0 0) AID_ROOT AID_ROOT 0 (ans_PrepareDir w 0)]
                   else [])"
  define drv where "drv =
     (if res = 0 \<and> ans_PrepareDir w 0 = 0 then
        (if t = ''ext4'' then
           EvExt4Check (mDmDevPath v) path (ans_ext4_Check w 0) #
           (if ans_ext4_Check w 0 = 0 \<or> ans_ext4_Check w 0 = 1
            then [EvExt4Mount (mDmDevPath v) path False False True (ans_ext4_Mount w 0)]
            else [])
         else if t = ''f2fs'' then
           EvF2fsCheck (mDmDevPath v) (ans_f2fs_Check w 0) #
           (if ans_f2fs_Check w 0 = 0
            then [EvF2fsMount (mDmDevPath v) path (ans_f2fs_Mount w 0)]
            else [])
         else [])
      else [])"
  define mounted where "mounted = (res = 0 \<and> ans_PrepareDir w 0 = 0 \<and>
     (t = ''ext4'' \<and> (ans_ext4_Check w 0 = 0 \<or> ans_ext4_Check w 0 = 1) \<and>
        ans_ext4_Mount w 0 = 0 \<or>
      t = ''f2fs'' \<and> ans_f2fs_Check w 0 = 0 \<and> ans_f2fs_Mount w 0 = 0))"
  note shape = doMount_shape[OF run rd path_def meta_def pre_def drv_def mounted_def]
  have f: "filter is_check_or_mount meta = []" "filter is_check_or_mount pre = []"
    "filter is_check_or_mount drv = drv"
    by (simp_all add: meta_def pre_def drv_def)
  have em: "filter is_check_or_mount (emitted w w') = drv"
  proof (cases mounted)
    case False
    with shape have "emitted w w' = meta @ pre @ drv"
      by simp
    with f show ?thesis by simp
  next
    case True
    with shape obtain evs where
      "emitted w w' = meta @ pre @ drv @ EvRestoreconRecursive path # evs"
      "\<forall>e\<in>set evs. is_PrepareDir e"
      by auto
    with f show ?thesis
      by (simp add: filter_driver_PrepareDir)
  qed
  have st: "\<not> mounted \<longrightarrow> st = - EIO"
    using shape by simp
  have v': "mFsType v' = t" "res = 0 \<longrightarrow> mPath v' = path"
    using shape by simp_all
  have 1: "mFsType v' = t"
    by (rule v')
  have 2: "res = 0 \<and> ans_PrepareDir w 0 = 0 \<and> t = ''ext4'' \<longrightarrow>
      (if ans_ext4_Check w 0 = 0 \<or> ans_ext4_Check w 0 = 1
       then filter is_check_or_mount (emitted w w') =
              [EvExt4Check (mDmDevPath v) (mPath v') (ans_ext4_Check w 0),
               EvExt4Mount (mDmDevPath v) (mPath v') False False True (ans_ext4_Mount w 0)]
       else st = - EIO \<and>
            filter is_check_or_mount (emitted w w') =
              [EvExt4Check (mDmDevPath v) (mPath v') (ans_ext4_Check w 0)])"
    using st v'(2) unfolding em by (simp add: drv_def mounted_def)
  have 3: "res = 0 \<and> ans_PrepareDir w 0 = 0 \<and> t = ''f2fs'' \<longrightarrow>
      (if ans_f2fs_Check w 0 = 0
       then filter is_check_or_mount (emitted w w') =
              [EvF2fsCheck (mDmDevPath v) 0,
               EvF2fsMount (mDmDevPath v) (mPath v') (ans_f2fs_Mount w 0)]
       else st = - EIO \<and>
            filter is_check_or_mount (emitted w w') =
              [EvF2fsCheck (mDmDevPath v) (ans_f2fs_Check w 0)])"
    using st v'(2) unfolding em by (simp add: drv_def mounted_def)
  have 4: "t \<noteq> ''ext4'' \<and> t \<noteq> ''f2fs'' \<longrightarrow>
      st = - EIO \<and> filter is_check_or_mount (emitted w w') = []"
    using st unfolding em by (simp add: drv_def mounted_def)
  have 5: "res \<noteq> 0 \<or> ans_PrepareDir w 0 \<noteq> 0 \<longrightarrow>
      st = - EIO \<and> filter is_check_or_mount (emitted w w') = []"
    using st unfolding em by (auto simp: drv_def mounted_def)
  from 1 2 3 4 5 show ?thesis
    by (intro conjI)
qed

text \<open>
  C5 at five worlds: ext4 with a clean check, ext4 with check code 4, f2fs with a clean
  check, the unsupported "vfat", and metadata that cannot be read.
\<close>

theorem doMount_dispatch_witness:
  "filter is_check_or_mount (emitted calm_world (snd (snd (doMount created_volume calm_world)))) =
     [EvExt4Check ''/dev/block/dm-4'' ''/mnt/expand/57f8-abf4'' 0,
      EvExt4Mount ''/dev/block/dm-4'' ''/mnt/expand/57f8-abf4'' False False True 0] \<and>
   fst (doMount created_volume dirty_ext4_world) = - EIO \<and>
   filter is_check_or_mount
     (emitted dirty_ext4_world (snd (snd (doMount created_volume dirty_ext4_world)))) =
     [EvExt4Check ''/dev/block/dm-4'' ''/mnt/expand/57f8-abf4'' 4] \<and>
   filter is_check_or_mount (emitted f2fs_world (snd (snd (doMount created_volume f2fs_world)))) =
     [EvF2fsCheck ''/dev/block/dm-4'' 0,
      EvF2fsMount ''/dev/block/dm-4'' ''/mnt/expand/57f8-abf4'' 0] \<and>
   fst (doMount created_volume vfat_world) = - EIO \<and>
   filter is_check_or_mount (emitted vfat_world (snd (snd (doMount created_volume vfat_world)))) = [] \<and>
   fst (doMount created_volume unreadable_world) = - EIO \<and>
   filter is_check_or_mount
     (emitted unreadable_world (snd (snd (doMount created_volume unreadable_world)))) = []"
proof -
  have rd: "ans_ReadMetadata calm_world 0 = (0, ''ext4'', ''57f8-abf4'', ''data'')"
    "ans_ReadMetadata dirty_ext4_world 0 = (0, ''ext4'', ''57f8-abf4'', ''data'')"
    "ans_ReadMetadata f2fs_world 0 = (0, ''f2fs'', ''57f8-abf4'', ''data'')"
    "ans_ReadMetadata vfat_world 0 = (0, ''vfat'', ''57f8-abf4'', ''data'')"
    "ans_ReadMetadata unreadable_world 0 = (- EIO, [], [], [])"
    by (simp_all add: scenario)
  have ans: "ans_PrepareDir calm_world 0 = 0" "ans_ext4_Check calm_world 0 = 0"
    "ans_ext4_Mount calm_world 0 = 0"
    "ans_PrepareDir dirty_ext4_world 0 = 0" "ans_ext4_Check dirty_ext4_world 0 = 4"
    "ans_PrepareDir f2fs_world 0 = 0" "ans_f2fs_Check f2fs_world 0 = 0"
    "ans_f2fs_Mount f2fs_world 0 = 0"
    by (simp_all add: scenario)
  have vol: "mDmDevPath created_volume = ''/dev/block/dm-4''"
    by (simp add: scenario Let_def)
  have path: "mPath (fst (snd (doMount created_volume calm_world))) = ''/mnt/expand/57f8-abf4''"
    "mPath (fst (snd (doMount created_volume dirty_ext4_world))) = ''/mnt/expand/57f8-abf4''"
    "mPath (fst (snd (doMount created_volume f2fs_world))) = ''/mnt/expand/57f8-abf4''"
    by (simp_all add: doMount_unfold calls scenario)
  note calm = doMount_dispatch[OF run_projections rd(1)]
  note dirty = doMount_dispatch[OF run_projections rd(2)]
  note f2fs = doMount_dispatch[OF run_projections rd(3)]
  note vfat = doMount_dispatch[OF run_projections rd(4)]
  note unreadable = doMount_dispatch[OF run_projections rd(5)]
  from calm dirty f2fs vfat unreadable show ?thesis
    by (simp add: ans vol path EIO_def)
qed

text \<open>
  C6. When \<open>doMount\<close> returns \<open>OK\<close>, the \<open>PrepareDir\<close> calls of its run are the mount point
  and then exactly the nine directories of the layout, in order, each with its mode, owner
  and group, and each returned 0; the media directory carries the casefold flag unless
  sdcardfs is used. When any \<open>PrepareDir\<close> call of the run fails, \<open>doMount\<close> returns \<open>-EIO\<close>.
\<close>

theorem doMount_layout:
  "doMount v w = (st, v', w') \<Longrightarrow>
   (st = OK \<longrightarrow>
      filter is_PrepareDir (emitted w w') =
        [EvPrepareDir (mPath v') (mode 7 0 0) AID_ROOT AID_ROOT 0 0,
         EvPrepareDir (mPath v' @ ''/app'') (mode 7 7 1) AID_SYSTEM AID_SYSTEM 0 0,
         EvPrepareDir (mPath v' @ ''/user'') (mode 5 1 1) AID_SYSTEM AID_SYSTEM 0 0,
         EvPrepareDir (mPath v' @ ''/user_de'') (mode 5 1 1) AID_SYSTEM AID_SYSTEM 0 0,
         EvPrepareDir (mPath v' @ ''/misc_ce'') (mode 5 1 1) AID_SYSTEM AID_SYSTEM 0 0,
         EvPrepareDir (mPath v' @ ''/misc_de'') (mode 5 1 1) AID_SYSTEM AID_SYSTEM 0 0,
         EvPrepareDir (mPath v' @ ''/media'') (mode 5 5 0) AID_MEDIA_RW AID_MEDIA_RW
           (if IsSdcardfsUsed w then 0 else FS_CASEFOLD_FL) 0,
         EvPrepareDir (mPath v' @ ''/media/0'') (mode 7 7 0) AID_MEDIA_RW AID_MEDIA_RW 0 0,
         EvPrepareDir (mPath v' @ ''/local'') (mode 7 5 1) AID_ROOT AID_ROOT 0 0,
         EvPrepareDir (mPath v' @ ''/local/tmp'') (mode 7 7 1) AID_SHELL AID_SHELL 0 0]) \<and>
   ((\<exists>e\<in>set (emitted w w'). failed_PrepareDir e) \<longrightarrow> st = - EIO)"
proof -
  assume run: "doMount v w = (st, v', w')"
  obtain res t u l where rd: "ans_ReadMetadata w 0 = (res, t, u, l)"
    by (cases "ans_ReadMetadata w 0")
  define path where "path = ''/mnt/expand/'' @ c_str u"
  define meta where "meta = EvReadMetadata (mDmDevPath v) res t u l #
                    (if getListener v then [EvVolumeMetadataChanged (getId v) t u l] else [])"
  define pre where "pre = (if res = 0
                   then [EvSetPath path,
                         EvPrepareDir path (mode 7 0 0) AID_ROOT AID_ROOT 0 (ans_PrepareDir w 0)]
                   else [])"
  define drv where "drv =
     (if res = 0 \<and> ans_PrepareDir w 0 = 0 then
        (if t = ''ext4'' then
           EvExt4Check (mDmDevPath v) path (ans_ext4_Check w 0) #
           (if ans_ext4_Check w 0 = 0 \<or> ans_ext4_Check w 0 = 1
            then [EvExt4Mount (mDmDevPath v) path False False True (ans_ext4_Mount w 0)]
            else [])
         else if t = ''f2fs'' then
           EvF2fsCheck (mDmDevPath v) (ans_f2fs_Check w 0) #
           (if ans_f2fs_Check w 0 = 0
            then [EvF2fsMount (mDmDevPath v) path (ans_f2fs_Mount w 0)]
            else [])
         else [])
      else [])"
  define mounted where "mounted = (res = 0 \<and> ans_PrepareDir w 0 = 0 \<and>
     (t = ''ext4'' \<and> (ans_ext4_Check w 0 = 0 \<or> ans_ext4_Check w 0 = 1) \<and>
        ans_ext4_Mount w 0 = 0 \<or>
      t = ''f2fs'' \<and> ans_f2fs_Check w 0 = 0 \<and> ans_f2fs_Mount w 0 = 0))"
  note shape = doMount_shape[OF run rd path_def meta_def pre_def drv_def mounted_def]
  show ?thesis
  proof (cases mounted)
    case False
    with shape have "st = - EIO"
      by simp
    then show ?thesis
      by (simp add: OK_def EIO_def)
  next
    case True
    then have r0: "res = 0" "ans_PrepareDir w 0 = 0"
      by (simp_all add: mounted_def)
    from True shape obtain evs where
      em: "emitted w w' = meta @ pre @ drv @ EvRestoreconRecursive path # evs"
      and pd: "\<forall>e\<in>set evs. is_PrepareDir e"
      and ok: "st = OK \<longrightarrow> evs = map (\<lambda>(p, m, u, g, a). EvPrepareDir p m u g a 0)
                    (common_directories path (if IsSdcardfsUsed w then 0 else FS_CASEFOLD_FL))"
      and bad: "(\<exists>e\<in>set evs. failed_PrepareDir e) \<longrightarrow> st = - EIO"
      by auto
    have v': "mPath v' = path"
      using shape r0 by simp
    have fm: "filter is_PrepareDir meta = []" "filter is_PrepareDir drv = []"
      "filter is_PrepareDir pre = [EvPrepareDir path (mode 7 0 0) AID_ROOT AID_ROOT 0 0]"
      using r0 by (simp_all add: meta_def drv_def pre_def)
    have ff: "filter failed_PrepareDir meta = []" "filter failed_PrepareDir drv = []"
      "filter failed_PrepareDir pre = []"
      using r0 by (simp_all add: meta_def drv_def pre_def)
    have f: "filter is_PrepareDir (emitted w w') =
               EvPrepareDir path (mode 7 0 0) AID_ROOT AID_ROOT 0 0 # evs"
      using em pd fm by (simp add: filter_PrepareDir_all)
    have "filter failed_PrepareDir (emitted w w') = filter failed_PrepareDir evs"
      using em ff by simp
    then have "set (filter failed_PrepareDir (emitted w w')) = set (filter failed_PrepareDir evs)"
      by simp
    then have "(\<exists>e\<in>set (emitted w w'). failed_PrepareDir e) \<longrightarrow> (\<exists>e\<in>set evs. failed_PrepareDir e)"
      by auto
    with bad have 2: "(\<exists>e\<in>set (emitted w w'). failed_PrepareDir e) \<longrightarrow> st = - EIO"
      by blast
    have 1: "st = OK \<longrightarrow> filter is_PrepareDir (emitted w w') =
        EvPrepareDir path (mode 7 0 0) AID_ROOT AID_ROOT 0 0 #
        map (\<lambda>(p, m, u, g, a). EvPrepareDir p m u g a 0)
          (common_directories path (if IsSdcardfsUsed w then 0 else FS_CASEFOLD_FL))"
      using f ok by simp
    from 1 2 show ?thesis
      unfolding v' by (simp add: common_directories_def)
  qed
qed

text \<open>
  C6 in the calm world, and in a world where the \<open>PrepareDir\<close> call for \<open>user_de\<close> fails.
\<close>

theorem doMount_layout_witness:
  "fst (doMount created_volume calm_world) = OK \<and>
   filter is_PrepareDir (emitted calm_world (snd (snd (doMount created_volume calm_world)))) =
     [EvPrepareDir ''/mnt/expand/57f8-abf4'' (mode 7 0 0) AID_ROOT AID_ROOT 0 0,
      EvPrepareDir ''/mnt/expand/57f8-abf4/app'' (mode 7 7 1) AID_SYSTEM AID_SYSTEM 0 0,
      EvPrepareDir ''/mnt/expand/57f8-abf4/user'' (mode 5 1 1) AID_SYSTEM AID_SYSTEM 0 0,
      EvPrepareDir ''/mnt/expand/57f8-abf4/user_de'' (mode 5 1 1) AID_SYSTEM AID_SYSTEM 0 0,
      EvPrepareDir ''/mnt/expand/57f8-abf4/misc_ce'' (mode 5 1 1) AID_SYSTEM AID_SYSTEM 0 0,
      EvPrepareDir ''/mnt/expand/57f8-abf4/misc_de'' (mode 5 1 1) AID_SYSTEM AID_SYSTEM 0 0,
      EvPrepareDir ''/mnt/expand/57f8-abf4/media'' (mode 5 5 0) AID_MEDIA_RW AID_MEDIA_RW
        FS_CASEFOLD_FL 0,
      EvPrepareDir ''/mnt/expand/57f8-abf4/media/0'' (mode 7 7 0) AID_MEDIA_RW AID_MEDIA_RW 0 0,
      EvPrepareDir ''/mnt/expand/57f8-abf4/local'' (mode 7 5 1) AID_ROOT AID_ROOT 0 0,
      EvPrepareDir ''/mnt/expand/57f8-abf4/local/tmp'' (mode 7 7 1) AID_SHELL AID_SHELL 0 0] \<and>
   filter failed_PrepareDir
     (emitted nodir_world (snd (snd (doMount created_volume nodir_world)))) =
     [EvPrepareDir ''/mnt/expand/57f8-abf4/user_de'' (mode 5 1 1) AID_SYSTEM AID_SYSTEM 0 (- 1)] \<and>
   fst (doMount created_volume nodir_world) = - EIO"
proof -
  have ok: "fst (doMount created_volume calm_world) = OK"
    by (simp add: doMount_unfold calls scenario)
  have path: "mPath (fst (snd (doMount created_volume calm_world))) = ''/mnt/expand/57f8-abf4''"
    by (simp add: doMount_unfold calls scenario)
  have sd: "\<not> IsSdcardfsUsed calm_world"
    by (simp add: scenario)
  have bad: "filter failed_PrepareDir
     (emitted nodir_world (snd (snd (doMount created_volume nodir_world)))) =
     [EvPrepareDir ''/mnt/expand/57f8-abf4/user_de'' (mode 5 1 1) AID_SYSTEM AID_SYSTEM 0 (- 1)]"
    by (simp add: doMount_unfold calls scenario emitted_def Let_def)
  then have ex: "\<exists>e\<in>set (emitted nodir_world (snd (snd (doMount created_volume nodir_world)))).
                  failed_PrepareDir e"
    by (metis filter_empty_conv list.distinct(1))
  note calm = doMount_layout[OF run_projections, of created_volume calm_world]
  note nodir = doMount_layout[OF run_projections, of created_volume nodir_world]
  from calm ok path sd have "filter is_PrepareDir
      (emitted calm_world (snd (snd (doMount created_volume calm_world)))) =
     [EvPrepareDir ''/mnt/expand/57f8-abf4'' (mode 7 0 0) AID_ROOT AID_ROOT 0 0,
      EvPrepareDir ''/mnt/expand/57f8-abf4/app'' (mode 7 7 1) AID_SYSTEM AID_SYSTEM 0 0,
      EvPrepareDir ''/mnt/expand/57f8-abf4/user'' (mode 5 1 1) AID_SYSTEM AID_SYSTEM 0 0,
      EvPrepareDir ''/mnt/expand/57f8-abf4/user_de'' (mode 5 1 1) AID_SYSTEM AID_SYSTEM 0 0,
      EvPrepareDir ''/mnt/expand/57f8-abf4/misc_ce'' (mode 5 1 1) AID_SYSTEM AID_SYSTEM 0 0,
      EvPrepareDir ''/mnt/expand/57f8-abf4/misc_de'' (mode 5 1 1) AID_SYSTEM AID_SYSTEM 0 0,
      EvPrepareDir ''/mnt/expand/57f8-abf4/media'' (mode 5 5 0) AID_MEDIA_RW AID_MEDIA_RW
        FS_CASEFOLD_FL 0,
      EvPrepareDir ''/mnt/expand/57f8-abf4/media/0'' (mode 7 7 0) AID_MEDIA_RW AID_MEDIA_RW 0 0,
      EvPrepareDir ''/mnt/expand/57f8-abf4/local'' (mode 7 5 1) AID_ROOT AID_ROOT 0 0,
      EvPrepareDir ''/mnt/expand/57f8-abf4/local/tmp'' (mode 7 7 1) AID_SHELL AID_SHELL 0 0]"
    by simp
  moreover from nodir ex have "fst (doMount created_volume nodir_world) = - EIO"
    by blast
  ultimately show ?thesis
    using ok bad by simp
qed

subsection \<open>The mount path\<close>

text \<open>
  C3 as stated fails twice. A \<open>doMount\<close> that fails on an unsupported filesystem leaves the
  mount path set; and after a successful \<open>doMount\<close>, \<open>doUnmount\<close> unmounts, removes the mount
  point and returns \<open>OK\<close> while the mount path still holds the old value.
\<close>

theorem mPath_not_cleared_counterexample:
  "fst (doMount created_volume vfat_world) = - EIO \<and>
   mPath (fst (snd (doMount created_volume vfat_world))) = ''/mnt/expand/57f8-abf4'' \<and>
   fst (doMount created_volume calm_world) = OK \<and>
   fst (doUnmount mounted_volume mounted_world) = OK \<and>
   emitted mounted_world (snd (snd (doUnmount mounted_volume mounted_world))) =
     [EvForceUnmount ''/mnt/expand/57f8-abf4'', EvRmdir ''/mnt/expand/57f8-abf4'' 0] \<and>
   mPath (fst (snd (doUnmount mounted_volume mounted_world))) = ''/mnt/expand/57f8-abf4''"
  by (simp add: doMount_unfold doUnmount_def mounted_volume_def mounted_world_def calls scenario
      emitted_def)

text \<open>
  C3 (as amended). The mount path is empty after construction and only \<open>doMount\<close> writes it:
  a \<open>doMount\<close> whose metadata read succeeds sets it to "/mnt/expand/" followed by the UUID,
  whether or not the rest of \<open>doMount\<close> succeeds, and one whose read fails leaves it as it
  was. After a successful \<open>doMount\<close> it is therefore not empty. \<open>doUnmount\<close> returns \<open>OK\<close> and
  leaves the volume, the mount path included, as it was; \<open>doCreate\<close>, \<open>doDestroy\<close>,
  \<open>doFormat\<close>, \<open>readMetadata\<close> and \<open>doPostMount\<close> do not change the mount path either.
\<close>

theorem mPath_lifecycle:
  "mPath (PrivateVolume device keyRaw listener) = [] \<and>
   mPath (fst (snd (doMount v w))) =
     (if fst (ans_ReadMetadata w 0) = 0
      then ''/mnt/expand/'' @ c_str (fst (snd (snd (ans_ReadMetadata w 0))))
      else mPath v) \<and>
   (fst (doMount v w) = OK \<longrightarrow> mPath (fst (snd (doMount v w))) \<noteq> []) \<and>
   doUnmount v w = (OK, v, snd (snd (doUnmount v w))) \<and>
   mPath (fst (snd (doCreate v w))) = mPath v \<and>
   mPath (fst (snd (doDestroy v w))) = mPath v \<and>
   mPath (fst (snd (doFormat fsType v w))) = mPath v \<and>
   mPath (fst (snd (readMetadata v w))) = mPath v \<and>
   mPath (fst (doPostMount v w)) = mPath v"
proof -
  obtain res t u l where rd: "ans_ReadMetadata w 0 = (res, t, u, l)"
    by (cases "ans_ReadMetadata w 0")
  obtain st v' w' where run: "doMount v w = (st, v', w')"
    by (cases "doMount v w")
  note shape = doMount_shape[OF run rd refl refl refl refl refl]
  have m1: "mPath v' = (if res = 0 then ''/mnt/expand/'' @ c_str u else mPath v)"
    using shape by simp
  have "res \<noteq> 0 \<longrightarrow> st = - EIO"
    using shape by simp
  then have "st = OK \<longrightarrow> res = 0"
    by (auto simp: OK_def EIO_def)
  with m1 have m2: "st = OK \<longrightarrow> mPath v' \<noteq> []"
    by simp
  have c: "mPath (fst (snd (doCreate v w))) = mPath v"
    by (simp add: doCreate_def Let_def split: prod.splits)
  have d: "mPath (fst (snd (doDestroy v w))) = mPath v"
    by (simp add: doDestroy_def split: prod.splits)
  have f: "mPath (fst (snd (doFormat fsType v w))) = mPath v"
    by (simp add: doFormat_def Let_def split: prod.splits)
  have r: "mPath (fst (snd (readMetadata v w))) = mPath v"
    by (simp add: readMetadata_def Let_def split: prod.splits)
  have p: "mPath (fst (doPostMount v w)) = mPath v"
    by (simp add: doPostMount_def Let_def)
  have un: "doUnmount v w = (OK, v, snd (snd (doUnmount v w)))"
    by (simp add: doUnmount_def Let_def split: prod.splits)
  have k: "mPath (PrivateVolume device keyRaw listener) = []"
    by (simp add: PrivateVolume_def Let_def)
  from m1 m2 c d f r p un k show ?thesis
    using run rd by simp
qed

text \<open>
  The amended C3 in the calm world, where \<open>doMount\<close> succeeds, and where the metadata
  cannot be read.
\<close>

theorem mPath_lifecycle_witness:
  "fst (doMount created_volume calm_world) = OK \<and>
   mPath (fst (snd (doMount created_volume calm_world))) = ''/mnt/expand/57f8-abf4'' \<and>
   fst (ans_ReadMetadata unreadable_world 0) = - EIO \<and>
   mPath (fst (snd (doMount created_volume unreadable_world))) = []"
proof -
  have ok: "fst (doMount created_volume calm_world) = OK"
    by (simp add: doMount_unfold calls scenario)
  have rd: "ans_ReadMetadata calm_world 0 = (0, ''ext4'', ''57f8-abf4'', ''data'')"
    "ans_ReadMetadata unreadable_world 0 = (- EIO, [], [], [])"
    by (simp_all add: scenario)
  have p: "mPath created_volume = []"
    by (simp add: scenario Let_def)
  from mPath_lifecycle[of sd_card "''k3y''" True created_volume calm_world "''auto''"]
    mPath_lifecycle[of sd_card "''k3y''" True created_volume unreadable_world "''auto''"]
    ok rd p
  show ?thesis
    by (simp add: c_str_def EIO_def)
qed

subsection \<open>Format\<close>

text \<open>
  C7. \<open>doFormat("auto")\<close>: when the major number of the raw device is 179 (MMC), 7 (loop) or
  one of the virtio-block majors, and the f2fs driver reports itself available, the f2fs
  format is the one call made; in every other case the ext4 format is. The status is \<open>OK\<close>
  when that call returns 0 and \<open>-EIO\<close> otherwise.
\<close>

theorem doFormat_auto:
  "fst (doFormat ''auto'' v w) =
     (if (if (major (mRawDevice v) = 179 \<or> major (mRawDevice v) = 7 \<or>
              IsVirtioBlkDevice w (major (mRawDevice v))) \<and> f2fs_IsSupported w
          then ans_f2fs_Format w 0 else ans_ext4_Format w 0) = 0
      then OK else - EIO) \<and>
   emitted w (snd (snd (doFormat ''auto'' v w))) =
     (if (major (mRawDevice v) = 179 \<or> major (mRawDevice v) = 7 \<or>
          IsVirtioBlkDevice w (major (mRawDevice v))) \<and> f2fs_IsSupported w
      then [EvF2fsFormat (mDmDevPath v) False [] (ans_f2fs_Format w 0)]
      else [EvExt4Format (mDmDevPath v) 0 ''/data'' (ans_ext4_Format w 0)])"
  by (simp add: doFormat_def calls emitted_def kMajorBlockMmc_def kMajorBlockLoop_def)

text \<open>
  C7 on an SD card with and without f2fs, and on a disk of major 8 with f2fs available.
\<close>

theorem doFormat_auto_witness:
  "emitted calm_world (snd (snd (doFormat ''auto'' sample_volume calm_world))) =
     [EvF2fsFormat [] False [] 0] \<and>
   emitted no_f2fs_world (snd (snd (doFormat ''auto'' sample_volume no_f2fs_world))) =
     [EvExt4Format [] 0 ''/data'' 0] \<and>
   emitted calm_world
     (snd (snd (doFormat ''auto'' (sample_volume\<lparr>mRawDevice := hard_disk\<rparr>) calm_world))) =
     [EvExt4Format [] 0 ''/data'' 0]"
  using doFormat_auto[of sample_volume calm_world] doFormat_auto[of sample_volume no_f2fs_world]
    doFormat_auto[of "sample_volume\<lparr>mRawDevice := hard_disk\<rparr>" calm_world]
  by (simp add: scenario Let_def)

text \<open>
  C8. An explicit type other than "auto", "ext4" and "f2fs": \<open>doFormat\<close> returns \<open>-EINVAL\<close>,
  which is not \<open>-EIO\<close>, and leaves the volume and the world as they were: no call is made.
\<close>

theorem doFormat_unsupported:
  "fsType \<noteq> ''auto'' \<Longrightarrow> fsType \<noteq> ''ext4'' \<Longrightarrow> fsType \<noteq> ''f2fs'' \<Longrightarrow>
     doFormat fsType v w = (- EINVAL, v, w) \<and> - EINVAL \<noteq> - EIO \<and>
     emitted w (snd (snd (doFormat fsType v w))) = []"
  by (simp add: doFormat_def emitted_def EINVAL_def EIO_def)

text \<open>
  C8 at the type "zzz".
\<close>

theorem doFormat_unsupported_witness:
  "''zzz'' \<noteq> ''auto'' \<and> ''zzz'' \<noteq> ''ext4'' \<and> ''zzz'' \<noteq> ''f2fs'' \<and>
   doFormat ''zzz'' sample_volume calm_world = (- EINVAL, sample_volume, calm_world) \<and>
   emitted calm_world (snd (snd (doFormat ''zzz'' sample_volume calm_world))) = []"
  using doFormat_unsupported[of "''zzz''" sample_volume calm_world] by (simp add: emitted_def)

text \<open>
  C10. For an explicit type (not "auto") the status and the calls of \<open>doFormat\<close> do not
  depend on the raw device, on the virtio-block majors or on the availability of f2fs.
  An explicit "f2fs" calls the f2fs format and an explicit "ext4" the ext4 format, in
  every world and for every device.
\<close>

theorem doFormat_explicit:
  "(fsType \<noteq> ''auto'' \<longrightarrow>
      fst (doFormat fsType (v\<lparr>mRawDevice := d\<rparr>)
             (w\<lparr>IsVirtioBlkDevice := p, f2fs_IsSupported := b\<rparr>)) =
      fst (doFormat fsType v w) \<and>
      emitted (w\<lparr>IsVirtioBlkDevice := p, f2fs_IsSupported := b\<rparr>)
        (snd (snd (doFormat fsType (v\<lparr>mRawDevice := d\<rparr>)
                     (w\<lparr>IsVirtioBlkDevice := p, f2fs_IsSupported := b\<rparr>)))) =
      emitted w (snd (snd (doFormat fsType v w)))) \<and>
   emitted w (snd (snd (doFormat ''f2fs'' v w))) =
     [EvF2fsFormat (mDmDevPath v) False [] (ans_f2fs_Format w 0)] \<and>
   emitted w (snd (snd (doFormat ''ext4'' v w))) =
     [EvExt4Format (mDmDevPath v) 0 ''/data'' (ans_ext4_Format w 0)]"
  by (simp add: doFormat_def calls emitted_def)

text \<open>
  C10: "f2fs" requested on a disk of major 8 while f2fs is not available, and "ext4"
  requested on an SD card while f2fs is available.
\<close>

theorem doFormat_explicit_witness:
  "''f2fs'' \<noteq> ''auto'' \<and> \<not> f2fs_IsSupported no_f2fs_world \<and>
   emitted no_f2fs_world
     (snd (snd (doFormat ''f2fs'' (sample_volume\<lparr>mRawDevice := hard_disk\<rparr>) no_f2fs_world))) =
     [EvF2fsFormat [] False [] 0] \<and>
   major (mRawDevice sample_volume) = 179 \<and> f2fs_IsSupported calm_world \<and>
   emitted calm_world (snd (snd (doFormat ''ext4'' sample_volume calm_world))) =
     [EvExt4Format [] 0 ''/data'' 0]"
  using doFormat_explicit[where fsType = "''f2fs''" and w = no_f2fs_world
          and v = "sample_volume\<lparr>mRawDevice := hard_disk\<rparr>"]
    doFormat_explicit[where fsType = "''ext4''" and v = sample_volume and w = calm_world]
  by (simp add: scenario Let_def)

end
